theory Spec2Isabelle
  imports Complex_Main
begin

section \<open>JavaScript values and string helpers\<close>

text \<open>
  The values that reach the classifier: a config field is absent (\<open>undefined\<close>),
  \<open>null\<close>, a number or a string.  Finite numbers are exact rationals, \<open>NaN\<close> is a
  value of its own.  \<open>JFunction\<close> stands for a built-in function object; the only one
  the code can meet is \<open>Object\<close>, inherited by every plain object literal under the
  key \<open>constructor\<close>.  Strings are ASCII text.
\<close>

datatype js_value =
    JUndefined
  | JNull
  | JNumber rat
  | JNaN
  | JString string
  | JFunction string

definition upper_letters :: string where
  "upper_letters = ''ABCDEFGHIJKLMNOPQRSTUVWXYZ''"

definition lower_letters :: string where
  "lower_letters = ''abcdefghijklmnopqrstuvwxyz''"

definition toLowerChar :: "char \<Rightarrow> char" where
  "toLowerChar c = (case map_of (zip upper_letters lower_letters) c of Some d \<Rightarrow> d | None \<Rightarrow> c)"

definition toUpperChar :: "char \<Rightarrow> char" where
  "toUpperChar c = (case map_of (zip lower_letters upper_letters) c of Some d \<Rightarrow> d | None \<Rightarrow> c)"

definition toLowerCase :: "string \<Rightarrow> string" where
  "toLowerCase s = map toLowerChar s"

definition toUpperCase :: "string \<Rightarrow> string" where
  "toUpperCase s = map toUpperChar s"

text \<open>\<^verbatim>\<open>s.replace(/[_\- ]/g, '')\<close>: underscores, hyphens and spaces are deleted.\<close>

definition strip_separators :: "string \<Rightarrow> string" where
  "strip_separators s = filter (\<lambda>c. c \<noteq> CHR ''_'' \<and> c \<noteq> CHR ''-'' \<and> c \<noteq> CHR '' '') s"

text \<open>\<^verbatim>\<open>s.replace(/[- ]/g, '_')\<close>: hyphens and spaces become underscores.\<close>

definition separators_to_underscore :: "string \<Rightarrow> string" where
  "separators_to_underscore s = map (\<lambda>c. if c = CHR ''-'' \<or> c = CHR '' '' then CHR ''_'' else c) s"

text \<open>The regular expression class \<^verbatim>\<open>\s\<close>, on ASCII: tab, LF, VT, FF, CR and space.\<close>

definition is_space :: "char \<Rightarrow> bool" where
  "is_space c = (c = CHR '' '' \<or> c = CHR 0x09 \<or> c = CHR 0x0A \<or> c = CHR 0x0B \<or> c = CHR 0x0C \<or> c = CHR 0x0D)"

fun startsWith :: "string \<Rightarrow> string \<Rightarrow> bool" where
  "startsWith s [] = True"
| "startsWith [] (k # ks) = False"
| "startsWith (c # cs) (k # ks) = (c = k \<and> startsWith cs ks)"

text \<open>\<^verbatim>\<open>s.includes(k)\<close>: \<open>k\<close> occurs in \<open>s\<close> as a contiguous substring.\<close>

fun str_includes :: "string \<Rightarrow> string \<Rightarrow> bool" where
  "str_includes [] k = (k = [])"
| "str_includes (c # cs) k = (startsWith (c # cs) k \<or> str_includes cs k)"

subsection \<open>parseInt with radix 10\<close>

definition digit_value :: "char \<Rightarrow> nat option" where
  "digit_value c = map_of (zip ''0123456789'' [0, 1, 2, 3, 4, 5, 6, 7, 8, 9]) c"

fun parse_digits :: "string \<Rightarrow> nat option \<Rightarrow> nat option" where
  "parse_digits [] acc = acc"
| "parse_digits (c # cs) acc =
     (case digit_value c of
        None \<Rightarrow> acc
      | Some d \<Rightarrow> parse_digits cs (Some (10 * (case acc of None \<Rightarrow> 0 | Some a \<Rightarrow> a) + d)))"

text \<open>
  \<^verbatim>\<open>parseInt(s, 10)\<close>: leading white space is skipped, one sign is read, then the
  longest run of decimal digits; with no digit the result is \<open>NaN\<close>.
\<close>

definition parseInt :: "string \<Rightarrow> js_value" where
  "parseInt s =
     (let t = dropWhile is_space s;
          (neg, u) = (case t of
                        [] \<Rightarrow> (False, [])
                      | c # cs \<Rightarrow> if c = CHR ''-'' then (True, cs)
                                 else if c = CHR ''+'' then (False, cs)
                                 else (False, t))
      in case parse_digits u None of
           None \<Rightarrow> JNaN
         | Some n \<Rightarrow> JNumber (if neg then - of_nat n else of_nat n))"

section \<open>The type taxonomy (widgetDetector.js)\<close>

text \<open>
  \<open>WidgetTypeConstants\<close>: numeric code to canonical name.  The object is indexed with a
  number, whose property key is its decimal string, so only the numbers 4 to 11 hit.
\<close>

definition WidgetTypeConstants :: "(rat \<times> string) list" where
  "WidgetTypeConstants =
     [(4, ''CAROUSEL_SLIDER''),
      (5, ''MASONRY''),
      (6, ''MARQUEE_STRIPE''),
      (7, ''AVATAR_GROUP''),
      (8, ''SINGLE_SLIDER''),
      (9, ''MARQUEE_UPDOWN''),
      (10, ''MARQUEE_LEFTRIGHT''),
      (11, ''FLOATING_TOAST'')]"

definition WidgetTypeNames :: "(string \<times> rat) list" where
  "WidgetTypeNames =
     [(''CAROUSEL_SLIDER'', 4),
      (''MASONRY'', 5),
      (''MARQUEE_STRIPE'', 6),
      (''AVATAR_GROUP'', 7),
      (''SINGLE_SLIDER'', 8),
      (''MARQUEE_UPDOWN'', 9),
      (''MARQUEE_LEFTRIGHT'', 10),
      (''FLOATING_TOAST'', 11)]"

definition WidgetAliases :: "(string \<times> string) list" where
  "WidgetAliases =
     [(''stripslider'', ''MARQUEE_STRIPE''),
      (''strip_slider'', ''MARQUEE_STRIPE''),
      (''marqueeslider'', ''MARQUEE_STRIPE''),
      (''carouselslider'', ''CAROUSEL_SLIDER''),
      (''carousel'', ''CAROUSEL_SLIDER''),
      (''singleslider'', ''SINGLE_SLIDER''),
      (''marqueeupdown'', ''MARQUEE_UPDOWN''),
      (''marqueeuptown'', ''MARQUEE_UPDOWN''),
      (''marqueeleftright'', ''MARQUEE_LEFTRIGHT''),
      (''floatingtoast'', ''FLOATING_TOAST''),
      (''avatargroup'', ''AVATAR_GROUP''),
      (''masonry'', ''MASONRY''),
      (''marqueestripe'', ''MARQUEE_STRIPE'')]"

text \<open>
  \<^verbatim>\<open>WidgetAliases[key]\<close>: an own property, else what the object inherits.  A key
  arrives here lower-cased and without underscores, and \<open>constructor\<close> is the one
  inherited property of that form.
\<close>

definition alias_lookup :: "string \<Rightarrow> js_value" where
  "alias_lookup k =
     (case map_of WidgetAliases k of
        Some v \<Rightarrow> JString v
      | None \<Rightarrow> if k = ''constructor'' then JFunction ''Object'' else JUndefined)"

definition truthy :: "js_value \<Rightarrow> bool" where
  "truthy v =
     (case v of
        JUndefined \<Rightarrow> False
      | JNull \<Rightarrow> False
      | JNaN \<Rightarrow> False
      | JNumber q \<Rightarrow> q \<noteq> 0
      | JString s \<Rightarrow> s \<noteq> []
      | JFunction f \<Rightarrow> True)"

definition CSS_SIGNATURES :: "(string list \<times> string) list" where
  "CSS_SIGNATURES =
     [([''feedspace-vertical-scroll'', ''feedspace-updown'', ''vertical-marquee''], ''MARQUEE_UPDOWN''),
      ([''fe-feedspace-avatar-group-widget-wrap'', ''feedspace-avatar-group''], ''AVATAR_GROUP''),
      ([''feedspace-carousel-widget'', ''testimonial-slider'', ''carousel_slider''], ''CAROUSEL_SLIDER''),
      ([''feedspace-marque-main-wrap'', ''strip-slider''], ''MARQUEE_STRIPE''),
      ([''feedspace-floating-widget'', ''fe-floating-toast'', ''fe-toast-card'', ''fe-chat-bubble''], ''FLOATING_TOAST''),
      ([''feedspace-element-horizontal-scroll-widget'', ''feedspace-left-right-shadow''], ''MARQUEE_LEFTRIGHT''),
      ([''feedspace-single-review-widget'', ''single-slider'', ''feedspace-single-slider''], ''SINGLE_SLIDER''),
      ([''fe-masonry'', ''feedspace-masonry'', ''masonry-widget''], ''MASONRY'')]"

section \<open>WidgetDetector.identify\<close>

text \<open>
  A config object with the two fields \<open>identify\<close> reads; an absent field is
  \<open>JUndefined\<close>.  The argument of \<open>identify\<close> is \<open>None\<close> when the caller passes
  \<open>null\<close> or \<open>undefined\<close>.
\<close>

record identify_config =
  widget_type_id :: js_value
  type_field :: js_value

text \<open>\<^verbatim>\<open>a ?? b\<close>: \<open>b\<close> only when \<open>a\<close> is \<open>null\<close> or \<open>undefined\<close>.\<close>

definition nullish_coalesce :: "js_value \<Rightarrow> js_value \<Rightarrow> js_value" where
  "nullish_coalesce a b = (if a = JNull \<or> a = JUndefined then b else a)"

text \<open>\<^verbatim>\<open>!isNaN(numericId) && WidgetTypeConstants[numericId]\<close> as the name found, if any.\<close>

definition constant_lookup :: "js_value \<Rightarrow> string option" where
  "constant_lookup numericId =
     (case numericId of JNumber q \<Rightarrow> map_of WidgetTypeConstants q | _ \<Rightarrow> None)"

text \<open>The string tier shared by \<open>identify\<close> and \<open>discover\<close>: alias table, then canonical names.\<close>

definition name_lookup :: "string \<Rightarrow> js_value option" where
  "name_lookup raw =
     (let normalized = strip_separators (toLowerCase raw) in
      if truthy (alias_lookup normalized) then Some (alias_lookup normalized)
      else let upperRaw = separators_to_underscore (toUpperCase raw) in
           if map_of WidgetTypeNames upperRaw \<noteq> None then Some (JString upperRaw)
           else None)"

definition identify :: "identify_config option \<Rightarrow> js_value" where
  "identify cfg =
     (case cfg of
        None \<Rightarrow> JString ''Unknown''
      | Some c \<Rightarrow>
          let raw = nullish_coalesce (widget_type_id c) (type_field c) in
          if raw = JNull \<or> raw = JUndefined then JString ''Unknown''
          else
            let numericId = (case raw of
                               JNumber q \<Rightarrow> raw
                             | JNaN \<Rightarrow> raw
                             | JString s \<Rightarrow> parseInt s
                             | _ \<Rightarrow> JNaN)
            in (case constant_lookup numericId of
                  Some name \<Rightarrow> JString name
                | None \<Rightarrow>
                    (case raw of
                       JString s \<Rightarrow>
                         (case name_lookup s of
                            Some v \<Rightarrow> v
                          | None \<Rightarrow> JString ''Unknown'')
                     | _ \<Rightarrow> JString ''Unknown'')))"

section \<open>WidgetDetector.discover\<close>

text \<open>
  What \<^verbatim>\<open>locator.evaluate\<close> hands back from the page: the identifying attribute
  found on the element, its ancestors, its frame document or its descendants (if any),
  the lower-cased class names of parent, element and first five children, the first 800
  characters of the lower-cased inner HTML, and the anchor flag.
\<close>

record info =
  idAttr :: "string option"
  allClasses :: string
  htmlSnippet :: string
  isFeedspaceAnchor :: bool

text \<open>
  The race of the page evaluation against the five-second timer either rejects (an
  evaluation error or the timeout) or resolves, possibly with nothing.
\<close>

datatype evaluation = EvalRejected | EvalResolved "info option"

text \<open>Priority 1: the attribute as a numeric code, then as a name.\<close>

definition resolve_idAttr :: "string \<Rightarrow> js_value option" where
  "resolve_idAttr a =
     (case constant_lookup (parseInt a) of
        Some name \<Rightarrow> Some (JString name)
      | None \<Rightarrow> name_lookup a)"

text \<open>
  \<^verbatim>\<open>new RegExp(`(^|\\s)${token}(\\s|$)`).test(classString)\<close>: the token stands at the
  start of the string or after a white-space character, and is followed by a white-space
  character or the end.  The signature tokens are letters, hyphens and underscores, which
  a regular expression reads literally.
\<close>

definition token_at :: "string \<Rightarrow> string \<Rightarrow> bool" where
  "token_at s tok =
     (startsWith s tok \<and> (case drop (length tok) s of [] \<Rightarrow> True | c # rest \<Rightarrow> is_space c))"

fun hasClass_scan :: "bool \<Rightarrow> string \<Rightarrow> string \<Rightarrow> bool" where
  "hasClass_scan boundary [] tok = (boundary \<and> tok = [])"
| "hasClass_scan boundary (c # cs) tok =
     ((boundary \<and> token_at (c # cs) tok) \<or> hasClass_scan (is_space c) cs tok)"

definition hasClass :: "string \<Rightarrow> string \<Rightarrow> bool" where
  "hasClass classString tok = hasClass_scan True classString tok"

text \<open>Priority 2: the first signature one of whose tokens is a class of the element.\<close>

definition css_signature_match :: "string \<Rightarrow> string option" where
  "css_signature_match classes =
     map_option snd (find (\<lambda>signature. list_ex (hasClass classes) (fst signature)) CSS_SIGNATURES)"

text \<open>Priority 3: the keyword guesses made once the anchor check holds.\<close>

definition anchor_fallback :: "string \<Rightarrow> string" where
  "anchor_fallback html =
     (if str_includes html ''vertical-scroll'' \<or> str_includes html ''updown'' then ''MARQUEE_UPDOWN''
      else if str_includes html ''horizontal-scroll'' \<or> str_includes html ''left-right'' then ''MARQUEE_LEFTRIGHT''
      else if str_includes html ''carousel'' then ''CAROUSEL_SLIDER''
      else if str_includes html ''strip-slider'' then ''MARQUEE_STRIPE''
      else ''MARQUEE_UPDOWN'')"

text \<open>Priority 4: the keyword guesses made without the anchor.\<close>

definition html_fallback :: "string \<Rightarrow> string" where
  "html_fallback html =
     (if str_includes html ''feedspace-vertical-scroll'' \<or> str_includes html ''updown'' then ''MARQUEE_UPDOWN''
      else if str_includes html ''feedspace-marque'' \<or> str_includes html ''strip-slider'' then ''MARQUEE_STRIPE''
      else if str_includes html ''carousel'' then ''CAROUSEL_SLIDER''
      else if str_includes html ''masonry'' then ''MASONRY''
      else if str_includes html ''floating-toast'' \<or> str_includes html ''fe-toast'' then ''FLOATING_TOAST''
      else if str_includes html ''horizontal-scroll'' \<or> str_includes html ''left-right'' then ''MARQUEE_LEFTRIGHT''
      else if str_includes html ''single-slider'' \<or> str_includes html ''single-review'' then ''SINGLE_SLIDER''
      else if str_includes html ''avatar-group'' then ''AVATAR_GROUP''
      else ''Unknown'')"

text \<open>The cascade after the page evaluation has resolved with \<open>i\<close>.\<close>

definition classify_info :: "info \<Rightarrow> js_value" where
  "classify_info i =
     (case (case idAttr i of None \<Rightarrow> None | Some a \<Rightarrow> resolve_idAttr a) of
        Some v \<Rightarrow> v
      | None \<Rightarrow>
          (case css_signature_match (allClasses i) of
             Some t \<Rightarrow> JString t
           | None \<Rightarrow>
               if isFeedspaceAnchor i then JString (anchor_fallback (htmlSnippet i))
               else JString (html_fallback (htmlSnippet i))))"

text \<open>\<open>discover\<close>; the argument is \<open>None\<close> when no locator is passed.\<close>

definition discover :: "evaluation option \<Rightarrow> js_value" where
  "discover locator =
     (case locator of
        None \<Rightarrow> JString ''Unknown''
      | Some EvalRejected \<Rightarrow> JString ''Unknown''
      | Some (EvalResolved None) \<Rightarrow> JString ''Unknown''
      | Some (EvalResolved (Some i)) \<Rightarrow> classify_info i)"

section \<open>WidgetDetector.isSameType\<close>

text \<open>The inner \<open>resolve\<close>: \<open>null\<close> for an empty string, the alias if one is found, else the
  upper-cased string with hyphens and spaces turned to underscores.\<close>

definition resolve :: "string \<Rightarrow> js_value" where
  "resolve t =
     (if t = [] then JNull
      else let n = strip_separators (toLowerCase t) in
           if truthy (alias_lookup n) then alias_lookup n
           else JString (separators_to_underscore (toUpperCase t)))"

definition isSameType :: "string \<Rightarrow> string \<Rightarrow> bool" where
  "isSameType typeA typeB = (resolve typeA = resolve typeB)"

section \<open>Movement tracking (verticalScrollHelper.js, horizontalScrollHelper.js)\<close>

text \<open>
  The widget configuration as far as the core reads it: the two marquee direction
  fields, the cross-scrolling flag and the optional feature list.
\<close>

datatype feature_spec = FeatureName string | FeatureObject "string option"

record widget_config =
  marquee_direction :: js_value
  horizontal_marquee_direction :: js_value
  allow_cross_scrolling_animation :: js_value
  features :: "feature_spec list option"

text \<open>
  \<open>getPositions\<close> returns, for every track, the coordinate of each of its first five
  children along the axis, with no entry for a child without a bounding box: a list of
  optional coordinates, indexed by child.  Pixel coordinates are exact rationals here.
\<close>

type_synonym track_positions = "rat option list"

text \<open>The inner loop: the shift of every child present in both samples.\<close>

fun shifts :: "track_positions \<Rightarrow> track_positions \<Rightarrow> rat list" where
  "shifts (Some a # initial) (Some b # final) = (b - a) # shifts initial final"
| "shifts (p # initial) (q # final) = shifts initial final"
| "shifts initial final = []"

definition avgShift_of :: "track_positions \<Rightarrow> track_positions \<Rightarrow> rat" where
  "avgShift_of initial final =
     (let totalShift = sum_list (shifts initial final);
          count = length (shifts initial final)
      in if count > 0 then totalShift / of_nat count else 0)"

definition vertical_direction :: "rat \<Rightarrow> string" where
  "vertical_direction avg = (if avg > 1 then ''DOWN'' else if avg < - 1 then ''UP'' else ''STATIONARY'')"

definition horizontal_direction :: "rat \<Rightarrow> string" where
  "horizontal_direction avg = (if avg > 1 then ''RIGHT'' else if avg < - 1 then ''LEFT'' else ''STATIONARY'')"

record track_result =
  trackIndex :: nat
  avgShift :: rat
  direction :: string

text \<open>
  The outer loop over \<open>i < count\<close>: a track with no entry in one of the two samples is
  skipped.
\<close>

definition track_results ::
  "(rat \<Rightarrow> string) \<Rightarrow> nat \<Rightarrow> track_positions list \<Rightarrow> track_positions list \<Rightarrow> track_result list" where
  "track_results classify n initialStates finalStates =
     map (\<lambda>i. \<lparr>trackIndex = i,
                avgShift = avgShift_of (initialStates ! i) (finalStates ! i),
                direction = classify (avgShift_of (initialStates ! i) (finalStates ! i))\<rparr>)
         (filter (\<lambda>i. i < length initialStates \<and> i < length finalStates) [0..<n])"

record movement_result =
  mv_status :: string
  mv_message :: string
  details :: "track_result list option"

text \<open>Reading \<^verbatim>\<open>.direction\<close> of an array element that does not exist throws, and the
  helper's handler turns the exception into an \<open>ERROR\<close> result.\<close>

definition missing_track_error :: movement_result where
  "missing_track_error =
     \<lparr>mv_status = ''ERROR'',
      mv_message = ''Cannot read properties of undefined (reading 'direction')'',
      details = None\<rparr>"

definition vertical_crossScrollingEnabled :: "widget_config \<Rightarrow> bool" where
  "vertical_crossScrollingEnabled cfg =
     (marquee_direction cfg = JString ''alter'' \<or> allow_cross_scrolling_animation cfg = JString ''1'')"

definition horizontal_crossScrollingEnabled :: "widget_config \<Rightarrow> bool" where
  "horizontal_crossScrollingEnabled cfg =
     (horizontal_marquee_direction cfg = JString ''alter'' \<or> allow_cross_scrolling_animation cfg = JString ''1'')"

text \<open>The analysis of \<open>VerticalScrollHelper.interact\<close>, from the column count and the first
  and last position samples.\<close>

definition vertical_analysis ::
  "widget_config \<Rightarrow> nat \<Rightarrow> track_positions list \<Rightarrow> track_positions list \<Rightarrow> movement_result" where
  "vertical_analysis cfg columnCount initialStates finalStates =
     (if columnCount = 0 then
        \<lparr>mv_status = ''UNKNOWN'',
         mv_message = ''No columns identified for programmatic tracking.'',
         details = None\<rparr>
      else
        let crossScrollingEnabled = vertical_crossScrollingEnabled cfg;
            colResults = track_results vertical_direction columnCount initialStates finalStates
        in if columnCount \<ge> 2 then
             (case colResults of
                r1 # r2 # rest \<Rightarrow>
                  let dir1 = direction r1;
                      dir2 = direction r2;
                      areOpposite = ((dir1 = ''UP'' \<and> dir2 = ''DOWN'') \<or> (dir1 = ''DOWN'' \<and> dir2 = ''UP''))
                  in if crossScrollingEnabled then
                       \<lparr>mv_status = (if \<not> areOpposite then ''FAIL'' else ''PASS''),
                        mv_message = (if areOpposite then ''Opposite column movement verified (Cross-Scroll)''
                                      else ''Failed: Columns moving in '' @ (if dir1 = dir2 then ''SAME'' else ''INCORRECT'') @ '' direction.''),
                        details = Some colResults\<rparr>
                     else
                       let areSame = (dir1 = dir2 \<and> dir1 \<noteq> ''STATIONARY'')
                       in \<lparr>mv_status = (if areOpposite then ''FAIL'' else ''PASS''),
                           mv_message = (if areSame then ''Parallel column movement verified.''
                                         else ''Movement direction discrepancy detected.''),
                           details = Some colResults\<rparr>
              | _ \<Rightarrow> missing_track_error)
           else
             (case colResults of
                col # rest \<Rightarrow>
                  if direction col = ''STATIONARY'' then
                    \<lparr>mv_status = ''FAIL'', mv_message = ''No vertical movement detected.'', details = Some colResults\<rparr>
                  else
                    \<lparr>mv_status = ''PASS'', mv_message = ''Movement detected: '' @ direction col, details = Some colResults\<rparr>
              | [] \<Rightarrow>
                  \<lparr>mv_status = ''PASS'', mv_message = ''Movement detected: UNKNOWN'', details = Some colResults\<rparr>))"

text \<open>The analysis of \<open>HorizontalScrollHelper.interact\<close>.\<close>

definition horizontal_analysis ::
  "widget_config \<Rightarrow> nat \<Rightarrow> track_positions list \<Rightarrow> track_positions list \<Rightarrow> movement_result" where
  "horizontal_analysis cfg rowCount initialStates finalStates =
     (if rowCount = 0 then
        \<lparr>mv_status = ''UNKNOWN'',
         mv_message = ''No rows identified for programmatic tracking.'',
         details = None\<rparr>
      else
        let crossScrollingEnabled = horizontal_crossScrollingEnabled cfg;
            rowResults = track_results horizontal_direction rowCount initialStates finalStates
        in if rowCount \<ge> 2 then
             (case rowResults of
                r1 # r2 # rest \<Rightarrow>
                  let dir1 = direction r1;
                      dir2 = direction r2;
                      areOpposite = ((dir1 = ''LEFT'' \<and> dir2 = ''RIGHT'') \<or> (dir1 = ''RIGHT'' \<and> dir2 = ''LEFT''))
                  in if crossScrollingEnabled then
                       \<lparr>mv_status = (if \<not> areOpposite then ''FAIL'' else ''PASS''),
                        mv_message = (if areOpposite then ''Opposite row movement verified.''
                                      else ''Failed: Rows moving in '' @ (if dir1 = dir2 then ''SAME'' else ''INCORRECT'') @ '' direction.''),
                        details = Some rowResults\<rparr>
                     else
                       let areSame = (dir1 = dir2 \<and> dir1 \<noteq> ''STATIONARY'')
                       in \<lparr>mv_status = (if areOpposite then ''FAIL'' else ''PASS''),
                           mv_message = (if areSame then ''Parallel row movement verified.''
                                         else ''Movement direction discrepancy detected.''),
                           details = Some rowResults\<rparr>
              | _ \<Rightarrow> missing_track_error)
           else
             (case rowResults of
                row # rest \<Rightarrow>
                  if direction row = ''STATIONARY'' then
                    \<lparr>mv_status = ''FAIL'', mv_message = ''No horizontal movement detected.'', details = Some rowResults\<rparr>
                  else
                    \<lparr>mv_status = ''PASS'', mv_message = ''Movement detected: '' @ direction row, details = Some rowResults\<rparr>
              | [] \<Rightarrow>
                  \<lparr>mv_status = ''PASS'', mv_message = ''Movement detected: UNKNOWN'', details = Some rowResults\<rparr>))"

section \<open>The external analysis call (aiEngine.js)\<close>

text \<open>
  One record of the analysis result and the result object itself.  A field that the
  object does not have is \<open>None\<close>; \<open>mock\<close> is set on the simulated result only.
\<close>

record feature_result =
  feature :: string
  ui_status :: string
  config_status :: string
  scenario :: string
  status :: string
  warning :: "string option"

record ai_result =
  mock :: bool
  error :: "string option"
  result_status :: "string option"
  overall_status :: "string option"
  message :: "string option"
  feature_results :: "feature_result list option"

datatype ai_value = AiUndefined | AiNull | AiObject ai_result

text \<open>What a JavaScript function call ends with when it does not return.\<close>

record js_error =
  err_message :: string
  err_status :: js_value

datatype js_exception =
    ReferenceError string
  | TypeError string
  | Thrown js_error

text \<open>
  One pass through the body of the \<open>try\<close> block up to the call of \<open>processResults\<close>:
  building the prompt, the request to the model, reading the response text and parsing
  it either throws an error object or yields the parsed answer.
\<close>

datatype attempt = Threw js_error | Parsed ai_value

record ai_engine =
  apiKey :: "string option"
  maxRetries :: nat
  initialDelay :: nat

text \<open>The constructor, given the value of the environment variable.\<close>

definition new_AIEngine :: "string option \<Rightarrow> ai_engine" where
  "new_AIEngine key = \<lparr>apiKey = key, maxRetries = 5, initialDelay = 5000\<rparr>"

definition processResults :: "ai_value \<Rightarrow> ai_value" where
  "processResults aiData =
     (case aiData of
        AiObject r \<Rightarrow>
          (case feature_results r of
             None \<Rightarrow> aiData
           | Some fs \<Rightarrow>
               let hasFailures = list_ex (\<lambda>f. status f = ''FAIL'') fs
               in AiObject (r\<lparr>overall_status := Some (if hasFailures then ''FAIL'' else ''PASS'')\<rparr>))
      | _ \<Rightarrow> aiData)"

text \<open>The UTF-8 bytes of the check mark that opens the scenario text of a normal feature.\<close>

definition normal_scenario :: string where
  "normal_scenario = [CHR 0xE2, CHR 0x9C, CHR 0x85] @ '' Normal''"

definition mock_feature :: "string \<Rightarrow> string \<Rightarrow> string \<Rightarrow> string \<Rightarrow> string \<Rightarrow> feature_result" where
  "mock_feature f u c sc st =
     \<lparr>feature = f, ui_status = u, config_status = c, scenario = sc, status = st, warning = None\<rparr>"

definition getMockResult :: ai_value where
  "getMockResult =
     AiObject
       \<lparr>mock = True,
        error = None,
        result_status = None,
        overall_status = Some ''FAIL'',
        message = Some ''Mock Mode: AI Validation Results (Simulated)'',
        feature_results = Some
          [mock_feature ''Left & Right Buttons'' ''Visible'' ''Visible'' normal_scenario ''PASS'',
           mock_feature ''Slider Indicators'' ''Absent'' ''Visible'' ''UI hidden but config says visible'' ''FAIL'',
           mock_feature ''Show Review Date'' ''Visible'' ''Visible'' normal_scenario ''PASS'',
           mock_feature ''Show Review Ratings'' ''Visible'' ''Visible'' normal_scenario ''PASS'',
           mock_feature ''Shorten Long Reviews / Read More'' ''Visible'' ''Visible'' normal_scenario ''PASS'',
           mock_feature ''Show Social Platform Icon'' ''Absent'' ''Visible'' ''UI hidden but config says visible'' ''FAIL'',
           mock_feature ''Inline CTA'' ''Visible'' ''Visible'' normal_scenario ''PASS'',
           mock_feature ''Feedspace Branding'' ''Absent'' ''Visible'' ''Branding hidden visually'' ''PASS'',
           mock_feature ''Review Card Border & Shadow'' ''Visible'' ''Visible'' normal_scenario ''PASS'']\<rparr>"

definition isRateLimit :: "js_error \<Rightarrow> bool" where
  "isRateLimit e = (str_includes (err_message e) ''429'' \<or> err_status e = JNumber 429)"

text \<open>\<^verbatim>\<open>staticFeatures || (config && config.features) || []\<close>\<close>

definition fallback_features :: "feature_spec list option \<Rightarrow> widget_config \<Rightarrow> feature_spec list" where
  "fallback_features staticFeatures cfg =
     (case staticFeatures of
        Some fs \<Rightarrow> fs
      | None \<Rightarrow> (case features cfg of Some fs \<Rightarrow> fs | None \<Rightarrow> []))"

definition feature_label :: "feature_spec \<Rightarrow> string" where
  "feature_label f =
     (case f of
        FeatureName n \<Rightarrow> n
      | FeatureObject (Some n) \<Rightarrow> if n = [] then ''Unknown'' else n
      | FeatureObject None \<Rightarrow> ''Unknown'')"

definition fallbackResults :: "js_error \<Rightarrow> feature_spec list \<Rightarrow> feature_result list" where
  "fallbackResults e fs =
     map (\<lambda>f. \<lparr>feature = feature_label f,
                ui_status = ''N/A'',
                config_status = ''N/A'',
                scenario = ''AI Analysis Failed'',
                status = ''UNKNOWN'',
                warning = Some (''AI analysis failed: '' @ err_message e)\<rparr>) fs"

text \<open>The object literal of the last \<open>return\<close> statement of the \<open>catch\<close> block.\<close>

definition error_result :: "js_error \<Rightarrow> feature_spec list \<Rightarrow> ai_value" where
  "error_result e fs =
     AiObject
       \<lparr>mock = False,
        error = Some (err_message e),
        result_status = Some ''ERROR'',
        overall_status = None,
        message = None,
        feature_results = Some (fallbackResults e fs)\<rparr>"

text \<open>
  The identifiers that the \<open>catch\<close> block of \<open>analyzeScreenshot\<close> can read: its own
  (\<open>error\<close>, \<open>isRateLimit\<close>, \<open>delay\<close>, \<open>features\<close>, \<open>fallbackResults\<close>), those of the
  loop and function body around it, the parameters, the module's top-level bindings,
  the bindings of the module wrapper and the globals of the runtime that the function uses.
  \<open>prompt\<close>, \<open>imageParts\<close>, \<open>result\<close>, \<open>response\<close>, \<open>text\<close>, \<open>cleanText\<close> and
  \<open>aiResults\<close> are \<open>const\<close> declarations of the \<open>try\<close> block and end with it.
\<close>

definition catch_scope :: "string list" where
  "catch_scope =
     [''error'', ''isRateLimit'', ''delay'', ''features'', ''fallbackResults'',
      ''buffers'', ''attempts'',
      ''imageBuffers'', ''config'', ''widgetType'', ''staticFeatures'',
      ''GoogleGenerativeAI'', ''PromptBuilder'', ''AIEngine'',
      ''exports'', ''require'', ''module'', ''__filename'', ''__dirname'',
      ''console'', ''process'', ''Math'', ''Promise'', ''setTimeout'', ''JSON'', ''Array'']"

text \<open>Reading an identifier that no enclosing scope declares throws.\<close>

definition read_identifier :: "string list \<Rightarrow> string \<Rightarrow> js_exception + unit" where
  "read_identifier scope name =
     (if name \<in> set scope then Inr () else Inl (ReferenceError (name @ '' is not defined'')))"

text \<open>
  The \<open>catch\<close> block after the retry test: \<open>features\<close> is computed, the condition
  \<^verbatim>\<open>if (text)\<close> is evaluated, then the placeholder records are built and returned.
\<close>

definition catch_tail :: "js_error \<Rightarrow> feature_spec list option \<Rightarrow> widget_config \<Rightarrow> js_exception + ai_value" where
  "catch_tail e staticFeatures cfg =
     (let fs = fallback_features staticFeatures cfg
      in case read_identifier catch_scope ''text'' of
           Inl exn \<Rightarrow> Inl exn
         | Inr u \<Rightarrow> Inr (error_result e fs))"

text \<open>
  A run of \<open>analyzeScreenshot\<close>: the delays slept through, in order and in milliseconds,
  the number of passes through the \<open>try\<close> block, and how the call ends.
\<close>

record analysis_run =
  waited :: "nat list"
  calls :: nat
  outcome :: "js_exception + ai_value"

text \<open>
  The \<open>while\<close> loop.  \<open>model k\<close> is what the \<open>k\<close>-th pass through the \<open>try\<close> block
  meets; \<open>attempts\<close> and \<open>delays\<close> are the counter and the delays so far.
\<close>

function analyze_loop ::
  "ai_engine \<Rightarrow> (nat \<Rightarrow> attempt) \<Rightarrow> widget_config \<Rightarrow> feature_spec list option \<Rightarrow> nat \<Rightarrow> nat list \<Rightarrow> analysis_run" where
  "analyze_loop eng model cfg staticFeatures attempts delays =
     (if attempts \<le> maxRetries eng then
        (case model (attempts + 1) of
           Parsed aiResults \<Rightarrow>
             \<lparr>waited = delays, calls = attempts + 1, outcome = Inr (processResults aiResults)\<rparr>
         | Threw e \<Rightarrow>
             if isRateLimit e \<and> attempts + 1 \<le> maxRetries eng then
               analyze_loop eng model cfg staticFeatures (attempts + 1)
                 (delays @ [initialDelay eng * 2 ^ (attempts + 1 - 1)])
             else
               \<lparr>waited = delays, calls = attempts + 1, outcome = catch_tail e staticFeatures cfg\<rparr>)
      else \<lparr>waited = delays, calls = attempts, outcome = Inr AiUndefined\<rparr>)"
  by pat_completeness auto
termination
  by (relation "measure (\<lambda>(eng, model, cfg, staticFeatures, attempts, delays). maxRetries eng + 1 - attempts)") auto

declare analyze_loop.simps [simp del]

definition analyzeScreenshot ::
  "ai_engine \<Rightarrow> (nat \<Rightarrow> attempt) \<Rightarrow> widget_config \<Rightarrow> feature_spec list option \<Rightarrow> analysis_run" where
  "analyzeScreenshot eng model cfg staticFeatures =
     (case apiKey eng of
        None \<Rightarrow> \<lparr>waited = [], calls = 0, outcome = Inr getMockResult\<rparr>
      | Some key \<Rightarrow>
          if key = [] then \<lparr>waited = [], calls = 0, outcome = Inr getMockResult\<rparr>
          else analyze_loop eng model cfg staticFeatures 0 [])"

section \<open>The dispatcher (playwrightHelper.js)\<close>

record image =
  fullPage :: bool
  bytes :: string

record type_match =
  expected :: string
  detected :: string
  matched :: bool
  reason :: string

text \<open>The fields of a \<open>PlaywrightHelper\<close> that the validation reads and writes.\<close>

record helper =
  config :: widget_config
  expectedType :: string
  widgetType :: string
  typeMatchResult :: "type_match option"
  aiResults :: ai_value
  movementVerification :: "movement_result option"

text \<open>A saved screenshot file: \<^verbatim>\<open>`${label}_${timestamp}${suffix}.png`\<close> in the
  screenshot directory, the suffix being \<^verbatim>\<open>_part<n>\<close> or empty.\<close>

record saved_path =
  label :: string
  stamp :: nat
  part :: "nat option"

record validation_result =
  res_expectedType :: string
  res_widgetType :: string
  res_typeMatchResult :: "type_match option"
  capturedConfig :: widget_config
  aiAnalysis :: ai_value
  res_movementVerification :: "movement_result option"
  screenshotPath :: "saved_path option"
  screenshotPaths :: "saved_path list"

definition buildErrorResult :: "helper \<Rightarrow> string \<Rightarrow> validation_result" where
  "buildErrorResult h why =
     \<lparr>res_expectedType = expectedType h,
      res_widgetType = ''Error'',
      res_typeMatchResult = Some \<lparr>expected = expectedType h, detected = ''Error'', matched = False, reason = why\<rparr>,
      capturedConfig = config h,
      aiAnalysis = AiNull,
      res_movementVerification = None,
      screenshotPath = None,
      screenshotPaths = []\<rparr>"

text \<open>
  What the page and the file system do during one call of \<open>validateWithAI\<close>, in the
  order the code asks: whether the page is closed on entry, the candidate count, whether
  the page is closed before the capture of the no-widget branch, that capture, whether the
  page is closed when the error handler runs, the handler's capture, whether creating the
  screenshot directory or writing a file fails, and the clock.
\<close>

record page_run =
  closed_at_entry :: bool
  match_count :: "js_error + nat"
  closed_before_capture :: bool
  capture :: "js_error + string"
  closed_in_handler :: bool
  handler_capture :: "js_error + string"
  mkdir_failure :: "js_error option"
  write_failure :: "js_error option"
  now :: nat

text \<open>A call of \<open>validateWithAI\<close>: the images passed to \<open>analyzeScreenshot\<close> (none if it
  is not reached) and how the call ends.\<close>

record validation_run =
  analysed :: "image list"
  returned :: "js_exception + validation_result"

text \<open>The file names of \<open>_finalizeAnalysis\<close>: one per buffer that is not null, numbered by
  position when there are several buffers.\<close>

definition savedPaths_of :: "helper \<Rightarrow> nat \<Rightarrow> image option list \<Rightarrow> saved_path list" where
  "savedPaths_of h t screenshotBuffers =
     map (\<lambda>i. \<lparr>label = (if widgetType h \<noteq> ''Unknown'' then widgetType h else expectedType h),
                stamp = t,
                part = (if length screenshotBuffers > 1 then Some (i + 1) else None)\<rparr>)
         (filter (\<lambda>i. screenshotBuffers ! i \<noteq> None) [0..<length screenshotBuffers])"

definition movement_feature :: "helper \<Rightarrow> movement_result \<Rightarrow> feature_result" where
  "movement_feature h mv =
     \<lparr>feature = (if str_includes (toUpperCase (widgetType h)) ''UPDOWN''
                 then ''Cross Scroll Animation'' else ''Horizontal Scrolling Animation''),
      ui_status = (if mv_status mv = ''PASS'' then ''Visible'' else ''Absent''),
      config_status = ''Visible'',
      scenario = mv_message mv,
      status = (if mv_status mv = ''ERROR'' \<or> mv_status mv = ''UNKNOWN'' then ''FAIL'' else mv_status mv),
      warning = None\<rparr>"

definition append_movement :: "helper \<Rightarrow> ai_value \<Rightarrow> ai_value" where
  "append_movement h ai =
     (case (movementVerification h, ai) of
        (Some mv, AiObject r) \<Rightarrow>
          (case feature_results r of
             Some fs \<Rightarrow>
               let r1 = r\<lparr>feature_results := Some (fs @ [movement_feature h mv])\<rparr>
               in AiObject (if mv_status mv = ''FAIL'' \<or> mv_status mv = ''ERROR''
                            then r1\<lparr>overall_status := Some ''FAIL''\<rparr> else r1)
           | None \<Rightarrow> ai)
      | _ \<Rightarrow> ai)"

definition type_feature :: "type_match \<Rightarrow> feature_result" where
  "type_feature tm =
     \<lparr>feature = ''Widget Type Identification'',
      ui_status = detected tm,
      config_status = expected tm,
      scenario = reason tm,
      status = (if matched tm then ''PASS'' else ''FAIL''),
      warning = None\<rparr>"

definition prepend_type_match :: "helper \<Rightarrow> ai_value \<Rightarrow> ai_value" where
  "prepend_type_match h ai =
     (case (ai, typeMatchResult h) of
        (AiObject r, Some tm) \<Rightarrow>
          (case feature_results r of
             Some fs \<Rightarrow>
               let r1 = r\<lparr>feature_results := Some (type_feature tm # fs)\<rparr>
               in AiObject (if \<not> matched tm then r1\<lparr>overall_status := Some ''FAIL''\<rparr> else r1)
           | None \<Rightarrow> ai)
      | _ \<Rightarrow> ai)"

text \<open>
  \<open>_finalizeAnalysis\<close>: the screenshot directory is created, every buffer that is not
  null is written, the remaining buffers go to \<open>analyzeScreenshot\<close>, the movement and
  type-match records are added to its answer, and the result object is assembled.  An
  exception of the file system or of the analysis call leaves the function.
\<close>

definition finalizeAnalysis ::
  "helper \<Rightarrow> page_run \<Rightarrow> ai_engine \<Rightarrow> (nat \<Rightarrow> attempt) \<Rightarrow> feature_spec list option \<Rightarrow> image option list \<Rightarrow> validation_run" where
  "finalizeAnalysis h env eng model staticFeatures screenshotBuffers =
     (case mkdir_failure env of
        Some e \<Rightarrow> \<lparr>analysed = [], returned = Inl (Thrown e)\<rparr>
      | None \<Rightarrow>
          let savedPaths = savedPaths_of h (now env) screenshotBuffers in
          (case (if savedPaths = [] then None else write_failure env) of
             Some e \<Rightarrow> \<lparr>analysed = [], returned = Inl (Thrown e)\<rparr>
           | None \<Rightarrow>
               let handed = map the (filter (\<lambda>b. b \<noteq> None) screenshotBuffers) in
               (case outcome (analyzeScreenshot eng model (config h) staticFeatures) of
                  Inl exn \<Rightarrow> \<lparr>analysed = handed, returned = Inl exn\<rparr>
                | Inr ai \<Rightarrow>
                    let h1 = h\<lparr>aiResults := ai\<rparr>;
                        h2 = h1\<lparr>aiResults := append_movement h1 (aiResults h1)\<rparr>;
                        h3 = h2\<lparr>aiResults := prepend_type_match h2 (aiResults h2)\<rparr>
                    in \<lparr>analysed = handed,
                        returned = Inr
                          \<lparr>res_expectedType = expectedType h3,
                           res_widgetType = widgetType h3,
                           res_typeMatchResult = typeMatchResult h3,
                           capturedConfig = config h3,
                           aiAnalysis = aiResults h3,
                           res_movementVerification = movementVerification h3,
                           screenshotPath = (case savedPaths of [] \<Rightarrow> None | p # ps \<Rightarrow> Some p),
                           screenshotPaths = savedPaths\<rparr>\<rparr>)))"

text \<open>The handler of \<open>validateWithAI\<close>: with no buffer yet and the page open, one more
  full-page capture is tried, and its failure is logged and dropped.\<close>

definition validation_handler :: "page_run \<Rightarrow> image option list \<Rightarrow> image option list" where
  "validation_handler env screenshotBuffers =
     (if screenshotBuffers = [] \<and> \<not> closed_in_handler env then
        (case handler_capture env of
           Inr b \<Rightarrow> screenshotBuffers @ [Some \<lparr>fullPage = True, bytes = b\<rparr>]
         | Inl ssError \<Rightarrow> screenshotBuffers)
      else screenshotBuffers)"

text \<open>The reason text of the no-widget verdict; its dash is an em dash, here in UTF-8.\<close>

definition not_found_reason :: string where
  "not_found_reason =
     ''No Feedspace widget selectors found on the page '' @ [CHR 0xE2, CHR 0x80, CHR 0x94]
       @ '' widget may not be embedded or is loaded in an iframe''"

text \<open>
  \<open>validateWithAI\<close>.  Steps 2 to 8, taken when at least one candidate matches, are the
  parameter \<open>widget_steps\<close>; everything before them and the branch for no candidate are
  as in the code.
\<close>

definition validateWithAI ::
  "helper \<Rightarrow> page_run \<Rightarrow> ai_engine \<Rightarrow> (nat \<Rightarrow> attempt) \<Rightarrow> feature_spec list option \<Rightarrow>
   (helper \<Rightarrow> nat \<Rightarrow> validation_run) \<Rightarrow> validation_run" where
  "validateWithAI h env eng model staticFeatures widget_steps =
     (if closed_at_entry env then
        \<lparr>analysed = [], returned = Inr (buildErrorResult h ''Page closed before validation'')\<rparr>
      else
        (case match_count env of
           Inl e \<Rightarrow> finalizeAnalysis h env eng model staticFeatures (validation_handler env [])
         | Inr count \<Rightarrow>
             if count = 0 then
               let h1 = h\<lparr>widgetType := ''Widget Not Found'',
                          typeMatchResult := Some \<lparr>expected = expectedType h,
                                                  detected = ''Widget Not Found'',
                                                  matched = False,
                                                  reason = not_found_reason\<rparr>\<rparr>
               in if \<not> closed_before_capture env then
                    (case capture env of
                       Inr b \<Rightarrow> finalizeAnalysis h1 env eng model staticFeatures [Some \<lparr>fullPage = True, bytes = b\<rparr>]
                     | Inl e \<Rightarrow> finalizeAnalysis h1 env eng model staticFeatures (validation_handler env []))
                  else finalizeAnalysis h1 env eng model staticFeatures []
             else widget_steps h count))"

section \<open>Notions and inputs used in the statements\<close>

text \<open>The config object \<^verbatim>\<open>{type: code}\<close>: no \<open>widget_type_id\<close> field.\<close>

definition type_only :: "js_value \<Rightarrow> identify_config option" where
  "type_only code = Some \<lparr>widget_type_id = JUndefined, type_field = code\<rparr>"

definition canonical_names :: "string list" where
  "canonical_names = map fst WidgetTypeNames"

definition alias_names :: "string list" where
  "alias_names = map fst WidgetAliases"

text \<open>
  Normalisation as the specification words it: lower-case with separators stripped and
  resolved through the alias table, else upper-case with separators turned to
  underscores.
\<close>

definition spec_normalize :: "string \<Rightarrow> string" where
  "spec_normalize t =
     (case map_of WidgetAliases (strip_separators (toLowerCase t)) of
        Some c \<Rightarrow> c
      | None \<Rightarrow> separators_to_underscore (toUpperCase t))"

text \<open>The class tokens of a class string: its maximal runs of characters that are not
  white space.\<close>

function class_tokens :: "string \<Rightarrow> string list" where
  "class_tokens [] = []"
| "class_tokens (c # cs) =
     (if is_space c then class_tokens cs
      else (c # takeWhile (\<lambda>x. \<not> is_space x) cs) # class_tokens (dropWhile (\<lambda>x. \<not> is_space x) cs))"
  by pat_completeness auto
termination
  by (relation "measure length") (auto simp add: le_imp_less_Suc length_dropWhile_le)

text \<open>No identifying attribute is resolved: there is none, or Priority 1 finds nothing for it.\<close>

definition attribute_unresolved :: "info \<Rightarrow> bool" where
  "attribute_unresolved i = (case idAttr i of None \<Rightarrow> True | Some a \<Rightarrow> resolve_idAttr a = None)"

text \<open>The keywords of the anchor tier and of the tier without anchor.\<close>

definition anchor_keywords :: "string list" where
  "anchor_keywords =
     [''vertical-scroll'', ''updown'', ''horizontal-scroll'', ''left-right'', ''carousel'', ''strip-slider'']"

definition html_keywords :: "string list" where
  "html_keywords =
     [''feedspace-vertical-scroll'', ''updown'', ''feedspace-marque'', ''strip-slider'', ''carousel'',
      ''masonry'', ''floating-toast'', ''fe-toast'', ''horizontal-scroll'', ''left-right'',
      ''single-slider'', ''single-review'', ''avatar-group'']"

text \<open>An element without attribute, signature class or anchor whose markup mentions a carousel.\<close>

definition carousel_snippet_info :: info where
  "carousel_snippet_info =
     \<lparr>idAttr = None, allClasses = ''wrapper'', htmlSnippet = ''<div class=carousel>'',
      isFeedspaceAnchor = False\<rparr>"

text \<open>An anchored element with an attribute that names no widget and no keyword in its markup.\<close>

definition anchored_plain_info :: info where
  "anchored_plain_info =
     \<lparr>idAttr = Some ''widget-77'', allClasses = ''wrapper feedspace-embed'', htmlSnippet = ''<p>hello</p>'',
      isFeedspaceAnchor = True\<rparr>"

text \<open>A configuration that does not expect cross-direction motion.\<close>

definition plain_config :: widget_config where
  "plain_config =
     \<lparr>marquee_direction = JUndefined, horizontal_marquee_direction = JUndefined,
      allow_cross_scrolling_animation = JString ''0'', features = None\<rparr>"

text \<open>An engine with an API key, as the constructor builds it.\<close>

definition live_engine :: ai_engine where
  "live_engine = new_AIEngine (Some ''key'')"

text \<open>The first \<open>n\<close> delays of the doubling schedule, in milliseconds.\<close>

definition backoff_delays :: "nat \<Rightarrow> nat list" where
  "backoff_delays n = map (\<lambda>k. 5000 * 2 ^ (k - 1)) [1 ..< n + 1]"

definition rate_limited :: js_error where
  "rate_limited =
     \<lparr>err_message = ''[429 Too Many Requests] Resource has been exhausted'', err_status = JNumber 429\<rparr>"

definition server_error :: js_error where
  "server_error =
     \<lparr>err_message = ''[500 Internal Server Error] try again later'', err_status = JNumber 500\<rparr>"

definition some_payload :: ai_value where
  "some_payload =
     AiObject
       \<lparr>mock = False, error = None, result_status = None, overall_status = Some ''PASS'', message = None,
        feature_results = Some
          [\<lparr>feature = ''Show Review Date'', ui_status = ''Visible'', config_status = ''Visible'',
            scenario = ''Normal'', status = ''FAIL'', warning = None\<rparr>]\<rparr>"

definition two_limits_then_success :: "nat \<Rightarrow> attempt" where
  "two_limits_then_success k = (if k \<le> 2 then Threw rate_limited else Parsed some_payload)"

definition always_server_error :: "nat \<Rightarrow> attempt" where
  "always_server_error k = Threw server_error"

definition always_rate_limited :: "nat \<Rightarrow> attempt" where
  "always_rate_limited k = Threw rate_limited"

text \<open>Three tracks sampled twice; the two final samples differ in the third track only.\<close>

definition sample_initial :: "track_positions list" where
  "sample_initial = [[Some 100, Some 200], [Some 50, None, Some 70], [Some 10]]"

definition sample_final_a :: "track_positions list" where
  "sample_final_a = [[Some 95, Some 195], [Some 55, Some 66, Some 75], [Some 40]]"

definition sample_final_b :: "track_positions list" where
  "sample_final_b = [[Some 95, Some 195], [Some 55, Some 66, Some 75], [Some (- 20)]]"

text \<open>A helper after \<open>init\<close> for a config that expects a strip slider.\<close>

definition fresh_helper :: helper where
  "fresh_helper =
     \<lparr>config = plain_config, expectedType = ''MARQUEE_STRIPE'', widgetType = ''Unknown'',
      typeMatchResult = None, aiResults = AiNull, movementVerification = None\<rparr>"

definition capture_timeout :: js_error where
  "capture_timeout = \<lparr>err_message = ''page.screenshot: Timeout 30000ms exceeded.'', err_status = JUndefined\<rparr>"

text \<open>A page that stays open, shows no candidate, and on which both captures time out.\<close>

definition failing_capture_page :: page_run where
  "failing_capture_page =
     \<lparr>closed_at_entry = False, match_count = Inr 0, closed_before_capture = False,
      capture = Inl capture_timeout, closed_in_handler = False, handler_capture = Inl capture_timeout,
      mkdir_failure = None, write_failure = None, now = 1700000000000\<rparr>"

text \<open>A page that stays open, shows no candidate, and is captured at the first attempt.\<close>

definition empty_page :: page_run where
  "empty_page =
     \<lparr>closed_at_entry = False, match_count = Inr 0, closed_before_capture = False,
      capture = Inr ''PNG'', closed_in_handler = False, handler_capture = Inr ''PNG'',
      mkdir_failure = None, write_failure = None, now = 1700000000000\<rparr>"

text \<open>An engine without API key, which answers with the simulated result.\<close>

definition mock_engine :: ai_engine where
  "mock_engine = new_AIEngine None"

text \<open>A stand-in for steps 2 to 8, which a page without candidate never reaches.\<close>

definition unreached_steps :: "helper \<Rightarrow> nat \<Rightarrow> validation_run" where
  "unreached_steps h count = \<lparr>analysed = [], returned = Inr (buildErrorResult h ''Page closed during setup'')\<rparr>"

text \<open>The images that the no-widget branch collects: the capture of the branch if the
  page is open and the capture succeeds, else the handler's capture if the first one
  threw, the page is open and that capture succeeds.\<close>

definition no_widget_images :: "page_run \<Rightarrow> image list" where
  "no_widget_images env =
     (if closed_before_capture env then []
      else case capture env of
             Inr b \<Rightarrow> [\<lparr>fullPage = True, bytes = b\<rparr>]
           | Inl e \<Rightarrow>
               if closed_in_handler env then []
               else (case handler_capture env of
                       Inr b \<Rightarrow> [\<lparr>fullPage = True, bytes = b\<rparr>]
                     | Inl e' \<Rightarrow> []))"

section \<open>Classification of a config record\<close>

lemma identify_number:
  "identify (type_only (JNumber q)) =
     (case map_of WidgetTypeConstants q of Some name \<Rightarrow> JString name | None \<Rightarrow> JString ''Unknown'')"
  by (simp add: identify_def type_only_def nullish_coalesce_def constant_lookup_def split: option.splits)

text \<open>
  Claim C1.  For each numeric code of the taxonomy, 4 to 11, \<open>identify\<close> of
  \<^verbatim>\<open>{type: code}\<close> is the canonical name bound to the code; for every other integer
  code it is \<open>Unknown\<close>.
\<close>

theorem identify_numeric_codes:
  "identify (type_only (JNumber 4)) = JString ''CAROUSEL_SLIDER''
   \<and> identify (type_only (JNumber 5)) = JString ''MASONRY''
   \<and> identify (type_only (JNumber 6)) = JString ''MARQUEE_STRIPE''
   \<and> identify (type_only (JNumber 7)) = JString ''AVATAR_GROUP''
   \<and> identify (type_only (JNumber 8)) = JString ''SINGLE_SLIDER''
   \<and> identify (type_only (JNumber 9)) = JString ''MARQUEE_UPDOWN''
   \<and> identify (type_only (JNumber 10)) = JString ''MARQUEE_LEFTRIGHT''
   \<and> identify (type_only (JNumber 11)) = JString ''FLOATING_TOAST''
   \<and> (\<forall>n::int. n < 4 \<or> 11 < n \<longrightarrow> identify (type_only (JNumber (of_int n))) = JString ''Unknown'')"
  unfolding identify_number
  by (auto simp add: WidgetTypeConstants_def)

theorem identify_numeric_codes_witness:
  "((12::int) < 4 \<or> 11 < (12::int)) \<and> identify (type_only (JNumber (of_int 12))) = JString ''Unknown''"
proof -
  have "\<forall>n::int. n < 4 \<or> 11 < n \<longrightarrow> identify (type_only (JNumber (of_int n))) = JString ''Unknown''"
    using identify_numeric_codes by blast
  from this[THEN spec, of 12] show ?thesis by simp
qed

text \<open>
  Claim C9.  When \<open>widget_type_id\<close> is neither \<open>null\<close> nor \<open>undefined\<close>, the result of
  \<open>identify\<close> does not depend on the \<open>type\<close> field: \<^verbatim>\<open>{widget_type_id: 0, type: 4}\<close>
  is \<open>Unknown\<close>, although \<^verbatim>\<open>{type: 4}\<close> alone is a canonical variant.
\<close>

theorem identify_widget_type_id_precedence:
  "(widget_type_id c \<noteq> JNull \<and> widget_type_id c \<noteq> JUndefined \<longrightarrow>
      identify (Some c) = identify (Some (c\<lparr>type_field := t\<rparr>)))
   \<and> identify (Some \<lparr>widget_type_id = JNumber 0, type_field = JNumber 4\<rparr>) = JString ''Unknown''
   \<and> identify (Some \<lparr>widget_type_id = JUndefined, type_field = JNumber 4\<rparr>) = JString ''CAROUSEL_SLIDER''"
  by (simp add: identify_def nullish_coalesce_def constant_lookup_def WidgetTypeConstants_def)

theorem identify_widget_type_id_precedence_witness:
  "widget_type_id \<lparr>widget_type_id = JNumber 0, type_field = JNumber 4\<rparr> \<noteq> JNull
   \<and> widget_type_id \<lparr>widget_type_id = JNumber 0, type_field = JNumber 4\<rparr> \<noteq> JUndefined
   \<and> identify (Some \<lparr>widget_type_id = JNumber 0, type_field = JNumber 4\<rparr>)
       = identify (Some \<lparr>widget_type_id = JNumber 0, type_field = JString ''masonry''\<rparr>)"
  using identify_widget_type_id_precedence
          [of "\<lparr>widget_type_id = JNumber 0, type_field = JNumber 4\<rparr>" "JString ''masonry''"]
  by simp

section \<open>Equivalence of type names\<close>

lemma resolve_names:
  "list_all (\<lambda>a. resolve a = JString (spec_normalize a) \<and> spec_normalize a \<in> set canonical_names)
     (canonical_names @ alias_names)"
  by code_simp

lemma stripe_stripslider: "isSameType ''MARQUEE_STRIPE'' ''stripslider''"
  by (simp add: isSameType_def resolve_def toLowerCase_def toUpperCase_def toLowerChar_def
      toUpperChar_def upper_letters_def lower_letters_def strip_separators_def
      separators_to_underscore_def alias_lookup_def WidgetAliases_def truthy_def)

text \<open>
  Claim C3.  On the canonical names and the aliases, \<open>isSameType\<close> is reflexive and
  symmetric, and it holds of two names exactly when they normalise to the same name,
  which is a canonical one; the backend name \<open>MARQUEE_STRIPE\<close> and the frontend alias
  \<open>stripslider\<close> are the same type.
\<close>

theorem isSameType_equivalence:
  "(\<forall>a \<in> set (canonical_names @ alias_names). \<forall>b \<in> set (canonical_names @ alias_names).
       isSameType a a
     \<and> isSameType a b = isSameType b a
     \<and> (isSameType a b \<longleftrightarrow> spec_normalize a = spec_normalize b)
     \<and> spec_normalize a \<in> set canonical_names)
   \<and> isSameType ''MARQUEE_STRIPE'' ''stripslider''"
proof (intro conjI ballI)
  fix a b
  assume a: "a \<in> set (canonical_names @ alias_names)" and b: "b \<in> set (canonical_names @ alias_names)"
  have ra: "resolve a = JString (spec_normalize a)" and ca: "spec_normalize a \<in> set canonical_names"
    using resolve_names a unfolding list_all_iff by blast+
  have rb: "resolve b = JString (spec_normalize b)"
    using resolve_names b unfolding list_all_iff by blast
  show "isSameType a a" by (simp add: isSameType_def)
  show "isSameType a b = isSameType b a" unfolding isSameType_def by (rule eq_commute)
  show "isSameType a b \<longleftrightarrow> spec_normalize a = spec_normalize b"
    unfolding isSameType_def ra rb by simp
  show "spec_normalize a \<in> set canonical_names" by (rule ca)
next
  show "isSameType ''MARQUEE_STRIPE'' ''stripslider''" by (rule stripe_stripslider)
qed

theorem isSameType_equivalence_witness:
  "''MARQUEE_STRIPE'' \<in> set (canonical_names @ alias_names)
   \<and> ''strip_slider'' \<in> set (canonical_names @ alias_names)
   \<and> spec_normalize ''MARQUEE_STRIPE'' = ''MARQUEE_STRIPE''
   \<and> spec_normalize ''strip_slider'' = ''MARQUEE_STRIPE''
   \<and> isSameType ''MARQUEE_STRIPE'' ''strip_slider''"
proof -
  have a: "''MARQUEE_STRIPE'' \<in> set (canonical_names @ alias_names)" by code_simp
  have b: "''strip_slider'' \<in> set (canonical_names @ alias_names)" by code_simp
  have n: "spec_normalize ''MARQUEE_STRIPE'' = ''MARQUEE_STRIPE''" by code_simp
  have m: "spec_normalize ''strip_slider'' = ''MARQUEE_STRIPE''" by code_simp
  note all = isSameType_equivalence[THEN conjunct1, THEN bspec, OF a, THEN bspec, OF b]
  from all have "isSameType ''MARQUEE_STRIPE'' ''strip_slider''
      \<longleftrightarrow> spec_normalize ''MARQUEE_STRIPE'' = spec_normalize ''strip_slider''"
    by (elim conjE)
  then have s: "isSameType ''MARQUEE_STRIPE'' ''strip_slider''"
    unfolding n m by simp
  show ?thesis using a b n m s by (intro conjI)
qed

section \<open>Classification of a live element\<close>

lemma startsWith_iff: "startsWith s k \<longleftrightarrow> (\<exists>rest. s = k @ rest)"
  by (induction s k rule: startsWith.induct) auto

lemma scan_nonspace_run:
  "\<forall>c \<in> set w. \<not> is_space c \<Longrightarrow> hasClass_scan False (w @ r) tok = hasClass_scan False r tok"
  by (induction w) auto

lemma scan_after_run:
  assumes "r = [] \<or> is_space (hd r)" and "tok \<noteq> []" and "\<forall>c \<in> set tok. \<not> is_space c"
  shows "hasClass_scan False r tok = hasClass_scan True r tok"
proof (cases r)
  case Nil
  then show ?thesis using assms by simp
next
  case (Cons c cs)
  then have sp: "is_space c" using assms(1) by simp
  obtain k ks where tok: "tok = k # ks" using assms(2) by (cases tok) auto
  then have "\<not> is_space k" using assms(3) by simp
  then have "\<not> token_at (c # cs) tok" using sp tok by (auto simp add: token_at_def)
  then show ?thesis using Cons sp by simp
qed

lemma token_at_run:
  assumes w: "\<forall>c \<in> set w. \<not> is_space c"
    and r: "r = [] \<or> is_space (hd r)"
    and tok: "\<forall>c \<in> set tok. \<not> is_space c"
  shows "token_at (w @ r) tok \<longleftrightarrow> tok = w"
proof
  assume "tok = w"
  then show "token_at (w @ r) tok"
    using r by (cases r) (auto simp add: token_at_def startsWith_iff)
next
  assume t: "token_at (w @ r) tok"
  then obtain rest where eq: "w @ r = tok @ rest"
    by (auto simp add: token_at_def startsWith_iff)
  then have "drop (length tok) (w @ r) = rest" by (metis append_eq_conv_conj)
  with t have rest: "rest = [] \<or> is_space (hd rest)"
    by (cases rest) (auto simp add: token_at_def)
  from eq obtain us where "(w = tok @ us \<and> us @ r = rest) \<or> (w @ us = tok \<and> r = us @ rest)"
    by (auto simp add: append_eq_append_conv2)
  then show "tok = w"
  proof
    assume a: "w = tok @ us \<and> us @ r = rest"
    show ?thesis
    proof (cases us)
      case Nil
      then show ?thesis using a by simp
    next
      case (Cons u us')
      then have "hd rest = u" "rest \<noteq> []" "u \<in> set w" using a by auto
      then show ?thesis using rest w by auto
    qed
  next
    assume a: "w @ us = tok \<and> r = us @ rest"
    show ?thesis
    proof (cases us)
      case Nil
      then show ?thesis using a by simp
    next
      case (Cons u us')
      then have "hd r = u" "r \<noteq> []" "u \<in> set tok" using a by auto
      then show ?thesis using r tok by auto
    qed
  qed
qed

lemma hasClass_scan_tokens:
  assumes "tok \<noteq> []" and "\<forall>c \<in> set tok. \<not> is_space c"
  shows "hasClass_scan True s tok \<longleftrightarrow> tok \<in> set (class_tokens s)"
proof (induction s rule: class_tokens.induct)
  case 1
  then show ?case using assms by simp
next
  case (2 c cs)
  show ?case
  proof (cases "is_space c")
    case True
    obtain k ks where tok: "tok = k # ks" using assms(1) by (cases tok) auto
    then have "\<not> is_space k" using assms(2) by simp
    then have "\<not> token_at (c # cs) tok" using True tok by (auto simp add: token_at_def)
    then show ?thesis using True "2.IH"(1) by simp
  next
    case False
    define w where "w = c # takeWhile (\<lambda>x. \<not> is_space x) cs"
    define r where "r = dropWhile (\<lambda>x. \<not> is_space x) cs"
    have split: "c # cs = w @ r" and tl: "cs = takeWhile (\<lambda>x. \<not> is_space x) cs @ r"
      by (simp_all add: w_def r_def)
    have w: "\<forall>x \<in> set w. \<not> is_space x"
      using False by (auto simp add: w_def dest: set_takeWhileD)
    have w': "\<forall>x \<in> set (takeWhile (\<lambda>x. \<not> is_space x) cs). \<not> is_space x"
      by (auto dest: set_takeWhileD)
    have r: "r = [] \<or> is_space (hd r)"
      using hd_dropWhile[of "\<lambda>x. \<not> is_space x" cs] by (auto simp add: r_def)
    have ta: "token_at (c # cs) tok \<longleftrightarrow> tok = w"
      using token_at_run[OF w r assms(2)] by (simp only: split)
    have "hasClass_scan True (c # cs) tok \<longleftrightarrow> token_at (c # cs) tok \<or> hasClass_scan False cs tok"
      using False by simp
    also have "hasClass_scan False cs tok = hasClass_scan False r tok"
      using scan_nonspace_run[OF w', of r tok] tl by simp
    also have "hasClass_scan False r tok = hasClass_scan True r tok"
      using scan_after_run[OF r assms] .
    also have "hasClass_scan True r tok \<longleftrightarrow> tok \<in> set (class_tokens r)"
      using "2.IH"(2)[OF False] by (simp add: r_def)
    finally show ?thesis using False ta by (auto simp add: w_def r_def)
  qed
qed

lemma signature_tokens_plain:
  "list_all (\<lambda>signature. list_all (\<lambda>tok. tok \<noteq> [] \<and> list_all (\<lambda>c. \<not> is_space c) tok) (fst signature))
     CSS_SIGNATURES"
  by code_simp

lemma tokens_of_padded: "class_tokens ''foo carousel_slider bar'' = [''foo'', ''carousel_slider'', ''bar'']"
  by (simp add: is_space_def)

lemma tokens_of_wrap: "class_tokens ''carousel_sliderwrap'' = [''carousel_sliderwrap'']"
  by (simp add: is_space_def)

lemma signature_of_wrap: "css_signature_match ''carousel_sliderwrap'' = None"
  by code_simp

lemma signature_of_padded: "css_signature_match ''foo carousel_slider bar'' = Some ''CAROUSEL_SLIDER''"
  by code_simp

lemma carousel_slider_plain:
  "''carousel_slider'' \<noteq> [] \<and> (\<forall>c \<in> set ''carousel_slider''. \<not> is_space c)"
  by (simp add: is_space_def)

text \<open>
  Claim C4.  Signature matching is matching of whole class tokens: for a token without
  white space, as all signature tokens are, \<open>hasClass\<close> holds exactly when the token is
  one of the class tokens of the string.  The class string \<open>carousel_sliderwrap\<close> does
  not match the token \<open>carousel_slider\<close> and matches no signature; the class string
  \<open>foo carousel_slider bar\<close> matches it and is classified by its signature.
\<close>

theorem hasClass_exact_token:
  "(tok \<noteq> [] \<and> (\<forall>c \<in> set tok. \<not> is_space c)
      \<longrightarrow> hasClass classString tok = (tok \<in> set (class_tokens classString)))
   \<and> (\<forall>signature \<in> set CSS_SIGNATURES. \<forall>t \<in> set (fst signature). t \<noteq> [] \<and> (\<forall>c \<in> set t. \<not> is_space c))
   \<and> \<not> hasClass ''carousel_sliderwrap'' ''carousel_slider''
   \<and> hasClass ''foo carousel_slider bar'' ''carousel_slider''
   \<and> css_signature_match ''carousel_sliderwrap'' = None
   \<and> css_signature_match ''foo carousel_slider bar'' = Some ''CAROUSEL_SLIDER''"
proof -
  have g: "tok \<noteq> [] \<and> (\<forall>c \<in> set tok. \<not> is_space c)
      \<longrightarrow> hasClass classString tok = (tok \<in> set (class_tokens classString))" for tok classString
    using hasClass_scan_tokens by (simp add: hasClass_def)
  have p: "\<forall>signature \<in> set CSS_SIGNATURES. \<forall>t \<in> set (fst signature). t \<noteq> [] \<and> (\<forall>c \<in> set t. \<not> is_space c)"
    using signature_tokens_plain unfolding list_all_iff .
  have a: "\<not> hasClass ''carousel_sliderwrap'' ''carousel_slider''"
    using g[of "''carousel_slider''" "''carousel_sliderwrap''"] carousel_slider_plain
    unfolding tokens_of_wrap by simp
  have b: "hasClass ''foo carousel_slider bar'' ''carousel_slider''"
    using g[of "''carousel_slider''" "''foo carousel_slider bar''"] carousel_slider_plain
    unfolding tokens_of_padded by simp
  from g p a b signature_of_wrap signature_of_padded show ?thesis by (intro conjI)
qed

theorem hasClass_exact_token_witness:
  "''carousel_slider'' \<noteq> [] \<and> list_all (\<lambda>c. \<not> is_space c) ''carousel_slider''
   \<and> class_tokens ''a carousel_sliderwrap'' = [''a'', ''carousel_sliderwrap'']
   \<and> hasClass ''a carousel_sliderwrap'' ''carousel_slider''
       = (''carousel_slider'' \<in> set (class_tokens ''a carousel_sliderwrap''))
   \<and> \<not> hasClass ''a carousel_sliderwrap'' ''carousel_slider''"
proof -
  have e: "class_tokens ''a carousel_sliderwrap'' = [''a'', ''carousel_sliderwrap'']"
    by (simp add: is_space_def)
  from hasClass_exact_token[of "''carousel_slider''" "''a carousel_sliderwrap''"] carousel_slider_plain
  have h: "hasClass ''a carousel_sliderwrap'' ''carousel_slider''
      = (''carousel_slider'' \<in> set (class_tokens ''a carousel_sliderwrap''))"
    by blast
  have n: "\<not> hasClass ''a carousel_sliderwrap'' ''carousel_slider''"
    unfolding h e by simp
  have p: "''carousel_slider'' \<noteq> []" "list_all (\<lambda>c. \<not> is_space c) ''carousel_slider''"
    using carousel_slider_plain unfolding list_all_iff by blast+
  show ?thesis using p e h n by (intro conjI)
qed

lemma carousel_snippet_facts:
  "idAttr carousel_snippet_info = None
   \<and> css_signature_match (allClasses carousel_snippet_info) = None
   \<and> \<not> isFeedspaceAnchor carousel_snippet_info
   \<and> discover (Some (EvalResolved (Some carousel_snippet_info))) = JString ''CAROUSEL_SLIDER''"
  by code_simp

text \<open>
  Claim C2, as stated, fails: an element with no identifying attribute, no signature
  class and no anchor whose markup contains \<open>carousel\<close> is classified
  \<open>CAROUSEL_SLIDER\<close>, not \<open>Unknown\<close>.
\<close>

theorem discover_without_anchor_counterexample:
  "attribute_unresolved carousel_snippet_info
   \<and> css_signature_match (allClasses carousel_snippet_info) = None
   \<and> \<not> isFeedspaceAnchor carousel_snippet_info
   \<and> discover (Some (EvalResolved (Some carousel_snippet_info))) \<noteq> JString ''Unknown''"
  using carousel_snippet_facts by (simp add: attribute_unresolved_def)

lemma anchor_fallback_default:
  "(\<forall>k \<in> set anchor_keywords. \<not> str_includes h k) \<Longrightarrow> anchor_fallback h = ''MARQUEE_UPDOWN''"
  by (simp add: anchor_fallback_def anchor_keywords_def)

lemma html_fallback_unknown:
  "html_fallback h = ''Unknown'' \<longleftrightarrow> (\<forall>k \<in> set html_keywords. \<not> str_includes h k)"
  by (simp add: html_fallback_def html_keywords_def)

text \<open>
  Claim C2, amended.  When no identifying attribute is resolved and no signature token
  matches: with the anchor and none of the anchor keywords in the snippet, \<open>discover\<close>
  returns \<open>MARQUEE_UPDOWN\<close>; without the anchor it returns what the keyword tier finds
  in the snippet, which is \<open>Unknown\<close> exactly when the snippet contains none of that
  tier's keywords.
\<close>

theorem discover_fallback_tiers:
  assumes "attribute_unresolved i" and "css_signature_match (allClasses i) = None"
  shows "(isFeedspaceAnchor i \<and> (\<forall>k \<in> set anchor_keywords. \<not> str_includes (htmlSnippet i) k)
            \<longrightarrow> discover (Some (EvalResolved (Some i))) = JString ''MARQUEE_UPDOWN'')
       \<and> (\<not> isFeedspaceAnchor i
            \<longrightarrow> discover (Some (EvalResolved (Some i))) = JString (html_fallback (htmlSnippet i)))
       \<and> (\<not> isFeedspaceAnchor i
            \<longrightarrow> (discover (Some (EvalResolved (Some i))) = JString ''Unknown''
                   \<longleftrightarrow> (\<forall>k \<in> set html_keywords. \<not> str_includes (htmlSnippet i) k)))"
proof -
  have c: "classify_info i = (if isFeedspaceAnchor i then JString (anchor_fallback (htmlSnippet i))
               else JString (html_fallback (htmlSnippet i)))"
    using assms by (simp add: classify_info_def attribute_unresolved_def split: option.splits)
  have d: "discover (Some (EvalResolved (Some i))) = classify_info i"
    by (simp add: discover_def)
  show ?thesis
    unfolding d c using anchor_fallback_default[of "htmlSnippet i"] html_fallback_unknown[of "htmlSnippet i"]
    by simp
qed

lemma anchored_plain_facts:
  "attribute_unresolved anchored_plain_info
   \<and> css_signature_match (allClasses anchored_plain_info) = None
   \<and> isFeedspaceAnchor anchored_plain_info
   \<and> list_all (\<lambda>k. \<not> str_includes (htmlSnippet anchored_plain_info) k) anchor_keywords"
  by code_simp

lemma carousel_snippet_unresolved:
  "attribute_unresolved carousel_snippet_info
   \<and> html_fallback (htmlSnippet carousel_snippet_info) = ''CAROUSEL_SLIDER''"
  by code_simp

theorem discover_fallback_tiers_witness:
  "attribute_unresolved anchored_plain_info
   \<and> css_signature_match (allClasses anchored_plain_info) = None
   \<and> isFeedspaceAnchor anchored_plain_info
   \<and> list_all (\<lambda>k. \<not> str_includes (htmlSnippet anchored_plain_info) k) anchor_keywords
   \<and> discover (Some (EvalResolved (Some anchored_plain_info))) = JString ''MARQUEE_UPDOWN''
   \<and> attribute_unresolved carousel_snippet_info
   \<and> css_signature_match (allClasses carousel_snippet_info) = None
   \<and> \<not> isFeedspaceAnchor carousel_snippet_info
   \<and> discover (Some (EvalResolved (Some carousel_snippet_info))) = JString ''CAROUSEL_SLIDER''"
proof -
  have u: "attribute_unresolved anchored_plain_info"
    and m: "css_signature_match (allClasses anchored_plain_info) = None"
    and a: "isFeedspaceAnchor anchored_plain_info"
    and k: "\<forall>k \<in> set anchor_keywords. \<not> str_includes (htmlSnippet anchored_plain_info) k"
    using anchored_plain_facts unfolding list_all_iff by blast+
  have u': "attribute_unresolved carousel_snippet_info"
    and m': "css_signature_match (allClasses carousel_snippet_info) = None"
    and a': "\<not> isFeedspaceAnchor carousel_snippet_info"
    and f': "html_fallback (htmlSnippet carousel_snippet_info) = ''CAROUSEL_SLIDER''"
    using carousel_snippet_facts carousel_snippet_unresolved by blast+
  have 1: "discover (Some (EvalResolved (Some anchored_plain_info))) = JString ''MARQUEE_UPDOWN''"
    using discover_fallback_tiers[OF u m] a k by blast
  have 2: "discover (Some (EvalResolved (Some carousel_snippet_info))) = JString ''CAROUSEL_SLIDER''"
    using discover_fallback_tiers[OF u' m'] a' f' by simp
  have k': "list_all (\<lambda>k. \<not> str_includes (htmlSnippet anchored_plain_info) k) anchor_keywords"
    using anchored_plain_facts by blast
  show ?thesis using u m a k' 1 u' m' a' 2 by (intro conjI)
qed

section \<open>The movement verdict\<close>

lemma upt_two: "[0..<2] = [0, Suc 0]"
  by (simp add: numeral_2_eq_2)

lemma track_results_two:
  "length i = 2 \<Longrightarrow> length f = 2 \<Longrightarrow>
   track_results cl 2 i f =
     [\<lparr>trackIndex = 0, avgShift = avgShift_of (i ! 0) (f ! 0), direction = cl (avgShift_of (i ! 0) (f ! 0))\<rparr>,
      \<lparr>trackIndex = 1, avgShift = avgShift_of (i ! 1) (f ! 1), direction = cl (avgShift_of (i ! 1) (f ! 1))\<rparr>]"
  by (simp add: track_results_def upt_two)

lemma track_results_one:
  "length i = Suc 0 \<Longrightarrow> length f = Suc 0 \<Longrightarrow>
   track_results cl (Suc 0) i f =
     [\<lparr>trackIndex = 0, avgShift = avgShift_of (i ! 0) (f ! 0), direction = cl (avgShift_of (i ! 0) (f ! 0))\<rparr>]"
  by (simp add: track_results_def)

lemma vertical_status_two:
  "2 \<le> n \<Longrightarrow> track_results vertical_direction n i f = r1 # r2 # rest \<Longrightarrow>
   mv_status (vertical_analysis cfg n i f) =
     (if ((direction r1 = ''UP'' \<and> direction r2 = ''DOWN'') \<or> (direction r1 = ''DOWN'' \<and> direction r2 = ''UP''))
           = vertical_crossScrollingEnabled cfg
      then ''PASS'' else ''FAIL'')"
  by (simp add: vertical_analysis_def Let_def)

lemma horizontal_status_two:
  "2 \<le> n \<Longrightarrow> track_results horizontal_direction n i f = r1 # r2 # rest \<Longrightarrow>
   mv_status (horizontal_analysis cfg n i f) =
     (if ((direction r1 = ''LEFT'' \<and> direction r2 = ''RIGHT'') \<or> (direction r1 = ''RIGHT'' \<and> direction r2 = ''LEFT''))
           = horizontal_crossScrollingEnabled cfg
      then ''PASS'' else ''FAIL'')"
  by (simp add: horizontal_analysis_def Let_def)

lemma vertical_status_one:
  "length i = 1 \<Longrightarrow> length f = 1 \<Longrightarrow>
   mv_status (vertical_analysis cfg 1 i f) =
     (if vertical_direction (avgShift_of (i ! 0) (f ! 0)) = ''STATIONARY'' then ''FAIL'' else ''PASS'')"
  by (simp add: vertical_analysis_def Let_def track_results_one)

lemma horizontal_status_one:
  "length i = 1 \<Longrightarrow> length f = 1 \<Longrightarrow>
   mv_status (horizontal_analysis cfg 1 i f) =
     (if horizontal_direction (avgShift_of (i ! 0) (f ! 0)) = ''STATIONARY'' then ''FAIL'' else ''PASS'')"
  by (simp add: horizontal_analysis_def Let_def track_results_one)

lemma stationary_below_threshold:
  "\<bar>s\<bar> < 1 \<Longrightarrow> vertical_direction s = ''STATIONARY'' \<and> horizontal_direction s = ''STATIONARY''"
  by (simp add: vertical_direction_def horizontal_direction_def abs_less_iff)

text \<open>
  Claim C5.  With cross-direction motion not expected: two tracks whose average shifts
  are \<open>-5\<close> and \<open>+5\<close> give status \<open>FAIL\<close>, two tracks both shifting by \<open>-5\<close> give
  \<open>PASS\<close>; a single track whose average shift is below one pixel in absolute value is
  \<open>STATIONARY\<close> and gives \<open>FAIL\<close>.  This holds of the vertical and of the horizontal
  helper.
\<close>

theorem movement_verdict_scenarios:
  "(length i = 2 \<and> length f = 2 \<and> \<not> vertical_crossScrollingEnabled cfg \<and> \<not> horizontal_crossScrollingEnabled cfg
      \<and> avgShift_of (i ! 0) (f ! 0) = - 5 \<and> avgShift_of (i ! 1) (f ! 1) = 5
    \<longrightarrow> mv_status (vertical_analysis cfg 2 i f) = ''FAIL'' \<and> mv_status (horizontal_analysis cfg 2 i f) = ''FAIL'')
   \<and> (length i = 2 \<and> length f = 2 \<and> \<not> vertical_crossScrollingEnabled cfg \<and> \<not> horizontal_crossScrollingEnabled cfg
      \<and> avgShift_of (i ! 0) (f ! 0) = - 5 \<and> avgShift_of (i ! 1) (f ! 1) = - 5
    \<longrightarrow> mv_status (vertical_analysis cfg 2 i f) = ''PASS'' \<and> mv_status (horizontal_analysis cfg 2 i f) = ''PASS'')
   \<and> (length i = 1 \<and> length f = 1 \<and> \<bar>avgShift_of (i ! 0) (f ! 0)\<bar> < 1
    \<longrightarrow> vertical_direction (avgShift_of (i ! 0) (f ! 0)) = ''STATIONARY''
      \<and> horizontal_direction (avgShift_of (i ! 0) (f ! 0)) = ''STATIONARY''
      \<and> mv_status (vertical_analysis cfg 1 i f) = ''FAIL'' \<and> mv_status (horizontal_analysis cfg 1 i f) = ''FAIL'')"
proof (intro conjI impI)
  assume h: "length i = 2 \<and> length f = 2 \<and> \<not> vertical_crossScrollingEnabled cfg \<and> \<not> horizontal_crossScrollingEnabled cfg
      \<and> avgShift_of (i ! 0) (f ! 0) = - 5 \<and> avgShift_of (i ! 1) (f ! 1) = 5"
  then have t: "track_results cl 2 i f = [\<lparr>trackIndex = 0, avgShift = - 5, direction = cl (- 5)\<rparr>,
      \<lparr>trackIndex = 1, avgShift = 5, direction = cl 5\<rparr>]" for cl
    using track_results_two[of i f cl] by simp
  show "mv_status (vertical_analysis cfg 2 i f) = ''FAIL''"
    using h vertical_status_two[OF order_refl t] by (simp add: vertical_direction_def)
  show "mv_status (horizontal_analysis cfg 2 i f) = ''FAIL''"
    using h horizontal_status_two[OF order_refl t] by (simp add: horizontal_direction_def)
next
  assume h: "length i = 2 \<and> length f = 2 \<and> \<not> vertical_crossScrollingEnabled cfg \<and> \<not> horizontal_crossScrollingEnabled cfg
      \<and> avgShift_of (i ! 0) (f ! 0) = - 5 \<and> avgShift_of (i ! 1) (f ! 1) = - 5"
  then have t: "track_results cl 2 i f = [\<lparr>trackIndex = 0, avgShift = - 5, direction = cl (- 5)\<rparr>,
      \<lparr>trackIndex = 1, avgShift = - 5, direction = cl (- 5)\<rparr>]" for cl
    using track_results_two[of i f cl] by simp
  show "mv_status (vertical_analysis cfg 2 i f) = ''PASS''"
    using h vertical_status_two[OF order_refl t] by (simp add: vertical_direction_def)
  show "mv_status (horizontal_analysis cfg 2 i f) = ''PASS''"
    using h horizontal_status_two[OF order_refl t] by (simp add: horizontal_direction_def)
next
  assume h: "length i = 1 \<and> length f = 1 \<and> \<bar>avgShift_of (i ! 0) (f ! 0)\<bar> < 1"
  then have s: "vertical_direction (avgShift_of (i ! 0) (f ! 0)) = ''STATIONARY''
      \<and> horizontal_direction (avgShift_of (i ! 0) (f ! 0)) = ''STATIONARY''"
    using stationary_below_threshold by blast
  show "vertical_direction (avgShift_of (i ! 0) (f ! 0)) = ''STATIONARY''" using s by blast
  show "horizontal_direction (avgShift_of (i ! 0) (f ! 0)) = ''STATIONARY''" using s by blast
  show "mv_status (vertical_analysis cfg 1 i f) = ''FAIL''"
    using h s vertical_status_one[of i f cfg] by simp
  show "mv_status (horizontal_analysis cfg 1 i f) = ''FAIL''"
    using h s horizontal_status_one[of i f cfg] by simp
qed

lemma plain_config_no_cross:
  "\<not> vertical_crossScrollingEnabled plain_config \<and> \<not> horizontal_crossScrollingEnabled plain_config"
  by (simp add: plain_config_def vertical_crossScrollingEnabled_def horizontal_crossScrollingEnabled_def)

lemma avg_up: "avgShift_of [Some 100, Some 200] [Some 95, Some 195] = - 5"
  by (simp add: avgShift_of_def)

lemma avg_down: "avgShift_of [Some 50, None, Some 70] [Some 55, Some 66, Some 75] = 5"
  by (simp add: avgShift_of_def)

lemma avg_still: "avgShift_of [Some 10, Some 20] [Some (21 / 2), Some 20] = 1 / 4"
  by (simp add: avgShift_of_def)

theorem movement_verdict_scenarios_witness:
  "mv_status (vertical_analysis plain_config 2 [[Some 100, Some 200], [Some 50, None, Some 70]] [[Some 95, Some 195], [Some 55, Some 66, Some 75]]) = ''FAIL''
  \<and> mv_status (horizontal_analysis plain_config 2 [[Some 100, Some 200], [Some 50, None, Some 70]] [[Some 95, Some 195], [Some 55, Some 66, Some 75]]) = ''FAIL''
  \<and> mv_status (vertical_analysis plain_config 2 [[Some 100, Some 200], [Some 100, Some 200]] [[Some 95, Some 195], [Some 95, Some 195]]) = ''PASS''
  \<and> mv_status (horizontal_analysis plain_config 2 [[Some 100, Some 200], [Some 100, Some 200]] [[Some 95, Some 195], [Some 95, Some 195]]) = ''PASS''
  \<and> \<bar>avgShift_of [Some 10, Some 20] [Some (21 / 2), Some 20]\<bar> < 1
  \<and> mv_status (vertical_analysis plain_config 1 [[Some 10, Some 20]] [[Some (21 / 2), Some 20]]) = ''FAIL''
  \<and> mv_status (horizontal_analysis plain_config 1 [[Some 10, Some 20]] [[Some (21 / 2), Some 20]]) = ''FAIL''"
proof -
  note c = plain_config_no_cross
  note a = movement_verdict_scenarios[of "[[Some 100, Some 200], [Some 50, None, Some 70]]" "[[Some 95, Some 195], [Some 55, Some 66, Some 75]]" plain_config, THEN conjunct1]
  note b = movement_verdict_scenarios[of "[[Some 100, Some 200], [Some 100, Some 200]]" "[[Some 95, Some 195], [Some 95, Some 195]]" plain_config, THEN conjunct2, THEN conjunct1]
  note d = movement_verdict_scenarios[of "[[Some 10, Some 20]]" "[[Some (21 / 2), Some 20]]" plain_config, THEN conjunct2, THEN conjunct2]
  from a c avg_up avg_down have 1: "mv_status (vertical_analysis plain_config 2 [[Some 100, Some 200], [Some 50, None, Some 70]] [[Some 95, Some 195], [Some 55, Some 66, Some 75]]) = ''FAIL''
  \<and> mv_status (horizontal_analysis plain_config 2 [[Some 100, Some 200], [Some 50, None, Some 70]] [[Some 95, Some 195], [Some 55, Some 66, Some 75]]) = ''FAIL''"
    by simp
  from b c avg_up have 2: "mv_status (vertical_analysis plain_config 2 [[Some 100, Some 200], [Some 100, Some 200]] [[Some 95, Some 195], [Some 95, Some 195]]) = ''PASS''
  \<and> mv_status (horizontal_analysis plain_config 2 [[Some 100, Some 200], [Some 100, Some 200]] [[Some 95, Some 195], [Some 95, Some 195]]) = ''PASS''"
    by simp
  have l: "\<bar>avgShift_of [Some 10, Some 20] [Some (21 / 2), Some 20]\<bar> < 1"
    unfolding avg_still by simp
  from d l have 3: "mv_status (vertical_analysis plain_config 1 [[Some 10, Some 20]] [[Some (21 / 2), Some 20]]) = ''FAIL''
  \<and> mv_status (horizontal_analysis plain_config 1 [[Some 10, Some 20]] [[Some (21 / 2), Some 20]]) = ''FAIL''"
    by simp
  from 1 2 l 3 show ?thesis by blast
qed

text \<open>
  Claim C10.  With two or more tracks identified, the status depends only on the
  directions of the first two tracks and on the cross-scroll configuration: two runs
  that agree on these have the same status, whatever any further track does.
\<close>

theorem movement_verdict_first_two_tracks:
  "(2 \<le> n \<and> 2 \<le> n'
     \<and> 2 \<le> length (track_results vertical_direction n i f)
     \<and> 2 \<le> length (track_results vertical_direction n' i' f')
     \<and> map direction (take 2 (track_results vertical_direction n i f))
         = map direction (take 2 (track_results vertical_direction n' i' f'))
     \<and> vertical_crossScrollingEnabled cfg = vertical_crossScrollingEnabled cfg'
    \<longrightarrow> mv_status (vertical_analysis cfg n i f) = mv_status (vertical_analysis cfg' n' i' f'))
   \<and> (2 \<le> n \<and> 2 \<le> n'
     \<and> 2 \<le> length (track_results horizontal_direction n i f)
     \<and> 2 \<le> length (track_results horizontal_direction n' i' f')
     \<and> map direction (take 2 (track_results horizontal_direction n i f))
         = map direction (take 2 (track_results horizontal_direction n' i' f'))
     \<and> horizontal_crossScrollingEnabled cfg = horizontal_crossScrollingEnabled cfg'
    \<longrightarrow> mv_status (horizontal_analysis cfg n i f) = mv_status (horizontal_analysis cfg' n' i' f'))"
proof -
  have split2: "\<exists>r1 r2 rest. rs = r1 # r2 # rest" if "2 \<le> length rs" for rs :: "track_result list"
    using that by (cases rs; cases "tl rs") auto
  show ?thesis
  proof (intro conjI impI)
    assume h: "2 \<le> n \<and> 2 \<le> n'
     \<and> 2 \<le> length (track_results vertical_direction n i f)
     \<and> 2 \<le> length (track_results vertical_direction n' i' f')
     \<and> map direction (take 2 (track_results vertical_direction n i f))
         = map direction (take 2 (track_results vertical_direction n' i' f'))
     \<and> vertical_crossScrollingEnabled cfg = vertical_crossScrollingEnabled cfg'"
    obtain r1 r2 rest where a: "track_results vertical_direction n i f = r1 # r2 # rest"
      using h split2 by blast
    obtain s1 s2 rest' where b: "track_results vertical_direction n' i' f' = s1 # s2 # rest'"
      using h split2 by blast
    have d: "direction r1 = direction s1 \<and> direction r2 = direction s2"
      using h a b by (simp add: numeral_2_eq_2)
    show "mv_status (vertical_analysis cfg n i f) = mv_status (vertical_analysis cfg' n' i' f')"
      using h d vertical_status_two[of n i f r1 r2 rest cfg, OF _ a]
        vertical_status_two[of n' i' f' s1 s2 rest' cfg', OF _ b]
      by simp
  next
    assume h: "2 \<le> n \<and> 2 \<le> n'
     \<and> 2 \<le> length (track_results horizontal_direction n i f)
     \<and> 2 \<le> length (track_results horizontal_direction n' i' f')
     \<and> map direction (take 2 (track_results horizontal_direction n i f))
         = map direction (take 2 (track_results horizontal_direction n' i' f'))
     \<and> horizontal_crossScrollingEnabled cfg = horizontal_crossScrollingEnabled cfg'"
    obtain r1 r2 rest where a: "track_results horizontal_direction n i f = r1 # r2 # rest"
      using h split2 by blast
    obtain s1 s2 rest' where b: "track_results horizontal_direction n' i' f' = s1 # s2 # rest'"
      using h split2 by blast
    have d: "direction r1 = direction s1 \<and> direction r2 = direction s2"
      using h a b by (simp add: numeral_2_eq_2)
    show "mv_status (horizontal_analysis cfg n i f) = mv_status (horizontal_analysis cfg' n' i' f')"
      using h d horizontal_status_two[of n i f r1 r2 rest cfg, OF _ a]
        horizontal_status_two[of n' i' f' s1 s2 rest' cfg', OF _ b]
      by simp
  qed
qed

lemma sample_directions:
  "map direction (track_results vertical_direction 3 sample_initial sample_final_a) = [''UP'', ''DOWN'', ''DOWN'']
   \<and> map direction (track_results vertical_direction 3 sample_initial sample_final_b) = [''UP'', ''DOWN'', ''UP'']
   \<and> map direction (track_results horizontal_direction 3 sample_initial sample_final_a) = [''LEFT'', ''RIGHT'', ''RIGHT'']
   \<and> map direction (track_results horizontal_direction 3 sample_initial sample_final_b) = [''LEFT'', ''RIGHT'', ''LEFT'']"
  by code_simp

lemma sample_status:
  "mv_status (vertical_analysis plain_config 3 sample_initial sample_final_a) = ''FAIL''
   \<and> mv_status (horizontal_analysis plain_config 3 sample_initial sample_final_a) = ''FAIL''"
  by code_simp

theorem movement_verdict_first_two_tracks_witness:
  "map direction (track_results vertical_direction 3 sample_initial sample_final_a) = [''UP'', ''DOWN'', ''DOWN'']
   \<and> map direction (track_results vertical_direction 3 sample_initial sample_final_b) = [''UP'', ''DOWN'', ''UP'']
   \<and> mv_status (vertical_analysis plain_config 3 sample_initial sample_final_a)
       = mv_status (vertical_analysis plain_config 3 sample_initial sample_final_b)
   \<and> mv_status (horizontal_analysis plain_config 3 sample_initial sample_final_a)
       = mv_status (horizontal_analysis plain_config 3 sample_initial sample_final_b)
   \<and> mv_status (vertical_analysis plain_config 3 sample_initial sample_final_b) = ''FAIL''"
proof -
  note d = sample_directions
  have lv: "2 \<le> length (track_results vertical_direction 3 sample_initial sample_final_a)
      \<and> 2 \<le> length (track_results vertical_direction 3 sample_initial sample_final_b)
      \<and> 2 \<le> length (track_results horizontal_direction 3 sample_initial sample_final_a)
      \<and> 2 \<le> length (track_results horizontal_direction 3 sample_initial sample_final_b)"
    by code_simp
  have tv: "map direction (take 2 (track_results vertical_direction 3 sample_initial sample_final_a))
      = map direction (take 2 (track_results vertical_direction 3 sample_initial sample_final_b))"
    using d by (simp add: take_map[symmetric])
  have th: "map direction (take 2 (track_results horizontal_direction 3 sample_initial sample_final_a))
      = map direction (take 2 (track_results horizontal_direction 3 sample_initial sample_final_b))"
    using d by (simp add: take_map[symmetric])
  note m = movement_verdict_first_two_tracks[of 3 3 sample_initial sample_final_a sample_initial sample_final_b
      plain_config plain_config]
  have v: "mv_status (vertical_analysis plain_config 3 sample_initial sample_final_a)
       = mv_status (vertical_analysis plain_config 3 sample_initial sample_final_b)"
    using m lv tv by simp
  have hz: "mv_status (horizontal_analysis plain_config 3 sample_initial sample_final_a)
       = mv_status (horizontal_analysis plain_config 3 sample_initial sample_final_b)"
    using m lv th by simp
  have f: "mv_status (vertical_analysis plain_config 3 sample_initial sample_final_b) = ''FAIL''"
    using v sample_status by simp
  show ?thesis using d v hz f by blast
qed

section \<open>Retry and failure of the external analysis call\<close>

lemma loop_parsed:
  "b = a + 1 \<Longrightarrow> a \<le> maxRetries eng \<Longrightarrow> model b = Parsed p \<Longrightarrow>
   analyze_loop eng model cfg sf a ds = \<lparr>waited = ds, calls = b, outcome = Inr (processResults p)\<rparr>"
  by (subst analyze_loop.simps) simp

lemma loop_retry:
  "b = a + 1 \<Longrightarrow> b \<le> maxRetries eng \<Longrightarrow> model b = Threw e \<Longrightarrow> isRateLimit e \<Longrightarrow>
   analyze_loop eng model cfg sf a ds =
     analyze_loop eng model cfg sf b (ds @ [initialDelay eng * 2 ^ a])"
  by (subst analyze_loop.simps) simp

lemma loop_fail:
  "b = a + 1 \<Longrightarrow> a \<le> maxRetries eng \<Longrightarrow> model b = Threw e \<Longrightarrow>
   \<not> (isRateLimit e \<and> b \<le> maxRetries eng) \<Longrightarrow>
   analyze_loop eng model cfg sf a ds = \<lparr>waited = ds, calls = b, outcome = catch_tail e sf cfg\<rparr>"
  by (subst analyze_loop.simps) auto

text \<open>
  The loop invariant: from counter \<open>a\<close> the loop makes \<open>m\<close> retries, within the
  ceiling; each follows a rate-limit failure and waits the base delay doubled once per
  earlier attempt.
\<close>

lemma analyze_loop_inv:
  "a \<le> maxRetries eng \<Longrightarrow>
   \<exists>m. a + m \<le> maxRetries eng
      \<and> waited (analyze_loop eng model cfg sf a ds)
          = ds @ map (\<lambda>k. initialDelay eng * 2 ^ (k - 1)) [a + 1 ..< a + 1 + m]
      \<and> calls (analyze_loop eng model cfg sf a ds) = a + m + 1
      \<and> (\<forall>k. a < k \<and> k \<le> a + m \<longrightarrow> (\<exists>e. model k = Threw e \<and> isRateLimit e))"
proof (induction eng model cfg sf a ds rule: analyze_loop.induct)
  case (1 eng model cfg sf a ds)
  show ?case
  proof (cases "model (a + 1)")
    case (Parsed p)
    then have "analyze_loop eng model cfg sf a ds = \<lparr>waited = ds, calls = a + 1, outcome = Inr (processResults p)\<rparr>"
      using "1.prems" by (intro loop_parsed) auto
    then show ?thesis using "1.prems" by (intro exI[of _ 0]) auto
  next
    case (Threw e)
    show ?thesis
    proof (cases "isRateLimit e \<and> a + 1 \<le> maxRetries eng")
      case False
      then have "analyze_loop eng model cfg sf a ds = \<lparr>waited = ds, calls = a + 1, outcome = catch_tail e sf cfg\<rparr>"
        using "1.prems" Threw by (intro loop_fail) auto
      then show ?thesis using "1.prems" by (intro exI[of _ 0]) auto
    next
      case True
      then have step: "analyze_loop eng model cfg sf a ds =
          analyze_loop eng model cfg sf (a + 1) (ds @ [initialDelay eng * 2 ^ a])"
        using Threw by (intro loop_retry) auto
      from "1.IH"[OF "1.prems" Threw True] True
      obtain m where m: "a + 1 + m \<le> maxRetries eng"
        "waited (analyze_loop eng model cfg sf (a + 1) (ds @ [initialDelay eng * 2 ^ (a + 1 - 1)]))
           = (ds @ [initialDelay eng * 2 ^ (a + 1 - 1)])
               @ map (\<lambda>k. initialDelay eng * 2 ^ (k - 1)) [a + 1 + 1 ..< a + 1 + 1 + m]"
        "calls (analyze_loop eng model cfg sf (a + 1) (ds @ [initialDelay eng * 2 ^ (a + 1 - 1)])) = a + 1 + m + 1"
        "\<forall>k. a + 1 < k \<and> k \<le> a + 1 + m \<longrightarrow> (\<exists>e. model k = Threw e \<and> isRateLimit e)"
        by blast
      have u: "[a + 1 ..< a + 1 + (m + 1)] = (a + 1) # [a + 1 + 1 ..< a + 1 + 1 + m]"
        by (simp add: upt_rec)
      have k: "\<forall>k. a < k \<and> k \<le> a + (m + 1) \<longrightarrow> (\<exists>e. model k = Threw e \<and> isRateLimit e)"
      proof (intro allI impI)
        fix k assume "a < k \<and> k \<le> a + (m + 1)"
        then consider "k = a + 1" | "a + 1 < k \<and> k \<le> a + 1 + m" by linarith
        then show "\<exists>e. model k = Threw e \<and> isRateLimit e"
          using Threw True m(4) by cases auto
      qed
      show ?thesis
        apply (rule exI[of _ "m + 1"])
        using m(1) m(2) m(3) k unfolding step u by simp
    qed
  qed
qed

lemma live_engine_fields:
  "maxRetries live_engine = 5" "initialDelay live_engine = 5000"
  by (simp_all add: live_engine_def new_AIEngine_def)

lemma live_engine_run:
  "analyzeScreenshot live_engine model cfg sf = analyze_loop live_engine model cfg sf 0 []"
  by (simp add: analyzeScreenshot_def live_engine_def new_AIEngine_def)

lemma sample_errors: "isRateLimit rate_limited" "\<not> isRateLimit server_error"
  by (simp_all add: isRateLimit_def rate_limited_def server_error_def)

text \<open>
  Claim C6.  A call with an API key makes at most five retries, each after a failure
  that is a rate-limit signal; the delay before retry \<open>k\<close> is 5000 ms times
  \<open>2 ^ (k - 1)\<close>.  When the first two attempts fail with a rate-limit signal and the
  third succeeds, the delays are 5000 ms and 10000 ms, 15000 ms in all, and the call
  returns the processed payload of the third attempt.
\<close>

theorem analyzeScreenshot_retry_backoff:
  "length (waited (analyzeScreenshot live_engine model cfg sf)) \<le> 5
   \<and> waited (analyzeScreenshot live_engine model cfg sf)
       = backoff_delays (length (waited (analyzeScreenshot live_engine model cfg sf)))
   \<and> calls (analyzeScreenshot live_engine model cfg sf)
       = length (waited (analyzeScreenshot live_engine model cfg sf)) + 1
   \<and> (\<forall>k. 1 \<le> k \<and> k \<le> length (waited (analyzeScreenshot live_engine model cfg sf))
          \<longrightarrow> (\<exists>e. model k = Threw e \<and> isRateLimit e))
   \<and> (\<forall>e1 e2 payload. model 1 = Threw e1 \<and> isRateLimit e1 \<and> model 2 = Threw e2 \<and> isRateLimit e2
          \<and> model 3 = Parsed payload
        \<longrightarrow> waited (analyzeScreenshot live_engine model cfg sf) = [5000, 10000]
          \<and> sum_list (waited (analyzeScreenshot live_engine model cfg sf)) = 15000
          \<and> calls (analyzeScreenshot live_engine model cfg sf) = 3
          \<and> outcome (analyzeScreenshot live_engine model cfg sf) = Inr (processResults payload))"
proof -
  note run = live_engine_run
  note mr = live_engine_fields(1) and idl = live_engine_fields(2)
  from analyze_loop_inv[of 0 live_engine model cfg sf "[]"]
  obtain m where m: "m \<le> 5"
    "waited (analyze_loop live_engine model cfg sf 0 []) = map (\<lambda>k. 5000 * 2 ^ (k - 1)) [1 ..< 1 + m]"
    "calls (analyze_loop live_engine model cfg sf 0 []) = m + 1"
    "\<forall>k. 0 < k \<and> k \<le> m \<longrightarrow> (\<exists>e. model k = Threw e \<and> isRateLimit e)"
    unfolding mr idl by auto
  have len: "length (waited (analyze_loop live_engine model cfg sf 0 [])) = m"
    unfolding m(2) by simp
  have scen: "waited (analyze_loop live_engine model cfg sf 0 []) = [5000, 10000]
          \<and> sum_list (waited (analyze_loop live_engine model cfg sf 0 [])) = 15000
          \<and> calls (analyze_loop live_engine model cfg sf 0 []) = 3
          \<and> outcome (analyze_loop live_engine model cfg sf 0 []) = Inr (processResults payload)"
    if h: "model 1 = Threw e1 \<and> isRateLimit e1 \<and> model 2 = Threw e2 \<and> isRateLimit e2 \<and> model 3 = Parsed payload"
    for e1 e2 payload
  proof -
    have s1: "analyze_loop live_engine model cfg sf 0 [] = analyze_loop live_engine model cfg sf 1 [5000]"
      using loop_retry[of 1 0 live_engine model e1 cfg sf "[]"] h by (simp add: mr idl)
    have s2: "analyze_loop live_engine model cfg sf 1 [5000] = analyze_loop live_engine model cfg sf 2 [5000, 10000]"
      using loop_retry[of 2 1 live_engine model e2 cfg sf "[5000]"] h by (simp add: mr idl)
    have s3: "analyze_loop live_engine model cfg sf 2 [5000, 10000]
        = \<lparr>waited = [5000, 10000], calls = 3, outcome = Inr (processResults payload)\<rparr>"
      using loop_parsed[of 3 2 live_engine model payload cfg sf "[5000, 10000]"] h by (simp add: mr)
    show ?thesis unfolding s1 s2 s3 by simp
  qed
  have c1: "length (waited (analyzeScreenshot live_engine model cfg sf)) \<le> 5"
    unfolding run len by (rule m(1))
  have c2: "waited (analyzeScreenshot live_engine model cfg sf)
       = backoff_delays (length (waited (analyzeScreenshot live_engine model cfg sf)))"
    unfolding run len backoff_delays_def using m(2) by (simp add: add.commute)
  have c3: "calls (analyzeScreenshot live_engine model cfg sf)
       = length (waited (analyzeScreenshot live_engine model cfg sf)) + 1"
    unfolding run len by (rule m(3))
  have c4: "\<forall>k. 1 \<le> k \<and> k \<le> length (waited (analyzeScreenshot live_engine model cfg sf))
          \<longrightarrow> (\<exists>e. model k = Threw e \<and> isRateLimit e)"
    unfolding run len using m(4) by auto
  have c5: "\<forall>e1 e2 payload. model 1 = Threw e1 \<and> isRateLimit e1 \<and> model 2 = Threw e2 \<and> isRateLimit e2
          \<and> model 3 = Parsed payload
        \<longrightarrow> waited (analyzeScreenshot live_engine model cfg sf) = [5000, 10000]
          \<and> sum_list (waited (analyzeScreenshot live_engine model cfg sf)) = 15000
          \<and> calls (analyzeScreenshot live_engine model cfg sf) = 3
          \<and> outcome (analyzeScreenshot live_engine model cfg sf) = Inr (processResults payload)"
    unfolding run using scen by blast
  from c1 c2 c3 c4 c5 show ?thesis by (intro conjI)
qed

theorem analyzeScreenshot_retry_backoff_witness:
  "two_limits_then_success 1 = Threw rate_limited \<and> isRateLimit rate_limited
   \<and> two_limits_then_success 2 = Threw rate_limited
   \<and> two_limits_then_success 3 = Parsed some_payload
   \<and> waited (analyzeScreenshot live_engine two_limits_then_success plain_config None) = [5000, 10000]
   \<and> sum_list (waited (analyzeScreenshot live_engine two_limits_then_success plain_config None)) = 15000
   \<and> outcome (analyzeScreenshot live_engine two_limits_then_success plain_config None)
       = Inr (processResults some_payload)
   \<and> (1 \<le> (2::nat) \<and> 2 \<le> length (waited (analyzeScreenshot live_engine two_limits_then_success plain_config None))
        \<and> (\<exists>e. two_limits_then_success 2 = Threw e \<and> isRateLimit e))"
proof -
  have h: "two_limits_then_success 1 = Threw rate_limited \<and> isRateLimit rate_limited
     \<and> two_limits_then_success 2 = Threw rate_limited \<and> isRateLimit rate_limited
     \<and> two_limits_then_success 3 = Parsed some_payload"
    by (simp add: two_limits_then_success_def sample_errors)
  note c = analyzeScreenshot_retry_backoff[of two_limits_then_success plain_config None]
  from c have s: "\<forall>e1 e2 payload. two_limits_then_success 1 = Threw e1 \<and> isRateLimit e1
          \<and> two_limits_then_success 2 = Threw e2 \<and> isRateLimit e2
          \<and> two_limits_then_success 3 = Parsed payload
        \<longrightarrow> waited (analyzeScreenshot live_engine two_limits_then_success plain_config None) = [5000, 10000]
          \<and> sum_list (waited (analyzeScreenshot live_engine two_limits_then_success plain_config None)) = 15000
          \<and> calls (analyzeScreenshot live_engine two_limits_then_success plain_config None) = 3
          \<and> outcome (analyzeScreenshot live_engine two_limits_then_success plain_config None)
              = Inr (processResults payload)"
    by blast
  from s[rule_format, OF h] h show ?thesis by simp
qed

lemma catch_tail_throws: "catch_tail e sf cfg = Inl (ReferenceError ''text is not defined'')"
  by (simp add: catch_tail_def read_identifier_def catch_scope_def)

text \<open>
  Claim C7 does not hold of the code.  The handler reads the identifier \<open>text\<close>, which
  the \<open>try\<close> block declares and the handler cannot see, before it builds the error
  result: a server error on the first attempt, and a rate limit on all six attempts,
  both end the call with a \<open>ReferenceError\<close> instead of the result with status
  \<open>ERROR\<close> and one \<open>UNKNOWN\<close> record per feature.
\<close>

theorem analyzeScreenshot_failure_throws:
  "outcome (analyzeScreenshot live_engine always_server_error plain_config (Some [FeatureName ''Show Review Date'']))
     = Inl (ReferenceError ''text is not defined'')
   \<and> outcome (analyzeScreenshot live_engine always_server_error plain_config (Some [FeatureName ''Show Review Date'']))
     \<noteq> Inr (error_result server_error [FeatureName ''Show Review Date''])
   \<and> calls (analyzeScreenshot live_engine always_server_error plain_config (Some [FeatureName ''Show Review Date''])) = 1
   \<and> outcome (analyzeScreenshot live_engine always_rate_limited plain_config (Some [FeatureName ''Show Review Date'']))
     = Inl (ReferenceError ''text is not defined'')
   \<and> calls (analyzeScreenshot live_engine always_rate_limited plain_config (Some [FeatureName ''Show Review Date''])) = 6
   \<and> waited (analyzeScreenshot live_engine always_rate_limited plain_config (Some [FeatureName ''Show Review Date'']))
     = [5000, 10000, 20000, 40000, 80000]"
proof -
  note ct = catch_tail_throws
  note mr = live_engine_fields(1) and idl = live_engine_fields(2)
  note rl = sample_errors
  have se: "always_server_error k = Threw server_error" and ar: "always_rate_limited k = Threw rate_limited" for k
    by (simp_all add: always_server_error_def always_rate_limited_def)
  have a: "analyze_loop live_engine always_server_error cfg sf 0 []
      = \<lparr>waited = [], calls = 1, outcome = Inl (ReferenceError ''text is not defined'')\<rparr>" for sf cfg
    using loop_fail[of 1 0 live_engine always_server_error server_error cfg sf "[]"] rl se
    by (simp add: ct)
  have b1: "analyze_loop live_engine always_rate_limited cfg sf 0 []
      = analyze_loop live_engine always_rate_limited cfg sf 1 [5000]" for sf cfg
    using loop_retry[of 1 0 live_engine always_rate_limited rate_limited cfg sf "[]"] rl ar
    by (simp add: mr idl)
  have b2: "analyze_loop live_engine always_rate_limited cfg sf 1 [5000]
      = analyze_loop live_engine always_rate_limited cfg sf 2 [5000, 10000]" for sf cfg
    using loop_retry[of 2 1 live_engine always_rate_limited rate_limited cfg sf "[5000]"] rl ar
    by (simp add: mr idl)
  have b3: "analyze_loop live_engine always_rate_limited cfg sf 2 [5000, 10000]
      = analyze_loop live_engine always_rate_limited cfg sf 3 [5000, 10000, 20000]" for sf cfg
    using loop_retry[of 3 2 live_engine always_rate_limited rate_limited cfg sf "[5000, 10000]"] rl ar
    by (simp add: mr idl)
  have b4: "analyze_loop live_engine always_rate_limited cfg sf 3 [5000, 10000, 20000]
      = analyze_loop live_engine always_rate_limited cfg sf 4 [5000, 10000, 20000, 40000]" for sf cfg
    using loop_retry[of 4 3 live_engine always_rate_limited rate_limited cfg sf "[5000, 10000, 20000]"] rl ar
    by (simp add: mr idl)
  have b5: "analyze_loop live_engine always_rate_limited cfg sf 4 [5000, 10000, 20000, 40000]
      = analyze_loop live_engine always_rate_limited cfg sf 5 [5000, 10000, 20000, 40000, 80000]" for sf cfg
    using loop_retry[of 5 4 live_engine always_rate_limited rate_limited cfg sf "[5000, 10000, 20000, 40000]"] rl ar
    by (simp add: mr idl)
  have b6: "analyze_loop live_engine always_rate_limited cfg sf 5 [5000, 10000, 20000, 40000, 80000]
      = \<lparr>waited = [5000, 10000, 20000, 40000, 80000], calls = 6,
         outcome = Inl (ReferenceError ''text is not defined'')\<rparr>" for sf cfg
    using loop_fail[of 6 5 live_engine always_rate_limited rate_limited cfg sf "[5000, 10000, 20000, 40000, 80000]"] rl ar
    by (simp add: ct mr)
  have b: "analyze_loop live_engine always_rate_limited cfg sf 0 []
      = \<lparr>waited = [5000, 10000, 20000, 40000, 80000], calls = 6,
         outcome = Inl (ReferenceError ''text is not defined'')\<rparr>" for sf cfg
    unfolding b1 b2 b3 b4 b5 b6 by (rule refl)
  show ?thesis unfolding live_engine_run a b by simp
qed

section \<open>Validation of a page without widget\<close>

lemma finalizeAnalysis_returns:
  assumes "mkdir_failure env = None" and "write_failure env = None"
    and "outcome (analyzeScreenshot eng model (config h) sf) = Inr ai"
  shows "analysed (finalizeAnalysis h env eng model sf bufs) = map the (filter (\<lambda>b. b \<noteq> None) bufs)
     \<and> (\<exists>r. returned (finalizeAnalysis h env eng model sf bufs) = Inr r
            \<and> res_expectedType r = expectedType h
            \<and> res_widgetType r = widgetType h
            \<and> res_typeMatchResult r = typeMatchResult h)"
  using assms by (simp add: finalizeAnalysis_def Let_def)

lemma no_widget_branch:
  assumes "\<not> closed_at_entry env" and "match_count env = Inr 0"
  shows "\<exists>bufs. validateWithAI h env eng model sf steps =
           finalizeAnalysis
             (h\<lparr>widgetType := ''Widget Not Found'',
                typeMatchResult := Some \<lparr>expected = expectedType h, detected = ''Widget Not Found'',
                                         matched = False, reason = not_found_reason\<rparr>\<rparr>)
             env eng model sf bufs
         \<and> map the (filter (\<lambda>b. b \<noteq> None) bufs) = no_widget_images env"
  using assms
  by (auto simp add: validateWithAI_def Let_def validation_handler_def no_widget_images_def
      split: sum.splits)

text \<open>
  Claim C8, as stated, fails: on a page that stays open and shows no candidate, with
  both capture attempts timing out, \<open>validateWithAI\<close> hands no image at all to the
  analysis.
\<close>

theorem no_widget_capture_counterexample:
  "\<not> closed_at_entry failing_capture_page
   \<and> match_count failing_capture_page = Inr 0
   \<and> \<not> closed_before_capture failing_capture_page
   \<and> \<not> closed_in_handler failing_capture_page
   \<and> analysed (validateWithAI fresh_helper failing_capture_page mock_engine always_server_error None unreached_steps) = []
   \<and> length (analysed (validateWithAI fresh_helper failing_capture_page mock_engine always_server_error None unreached_steps)) \<noteq> 1"
  by (simp add: validateWithAI_def failing_capture_page_def validation_handler_def finalizeAnalysis_def
      savedPaths_of_def Let_def mock_engine_def new_AIEngine_def analyzeScreenshot_def)

text \<open>
  Claim C8, amended.  If the page is open on entry, no candidate matches, the
  screenshot directory and files can be written and the analysis call returns, then
  \<open>validateWithAI\<close> returns a result with widget type \<open>Widget Not Found\<close> and a type
  match that is not matched.  The images handed to the analysis are at most one, a
  full-page capture: the capture of the branch if the page is open and it succeeds,
  else the handler's capture if the first one threw, the page is open and it succeeds.
\<close>

theorem validateWithAI_no_widget:
  assumes "\<not> closed_at_entry env" and "match_count env = Inr 0"
    and "mkdir_failure env = None" and "write_failure env = None"
    and "outcome (analyzeScreenshot eng model (config h) sf) = Inr ai"
  shows "(\<exists>r tm. returned (validateWithAI h env eng model sf steps) = Inr r
            \<and> res_widgetType r = ''Widget Not Found''
            \<and> res_typeMatchResult r = Some tm
            \<and> \<not> matched tm
            \<and> detected tm = ''Widget Not Found''
            \<and> expected tm = expectedType h)
       \<and> analysed (validateWithAI h env eng model sf steps) = no_widget_images env
       \<and> length (analysed (validateWithAI h env eng model sf steps)) \<le> 1
       \<and> (\<forall>img \<in> set (analysed (validateWithAI h env eng model sf steps)). fullPage img)
       \<and> (\<not> closed_before_capture env \<and> (\<exists>b. capture env = Inr b)
            \<longrightarrow> length (analysed (validateWithAI h env eng model sf steps)) = 1)"
proof -
  define h1 where "h1 = h\<lparr>widgetType := ''Widget Not Found'',
                typeMatchResult := Some \<lparr>expected = expectedType h, detected = ''Widget Not Found'',
                                         matched = False, reason = not_found_reason\<rparr>\<rparr>"
  obtain bufs where v: "validateWithAI h env eng model sf steps = finalizeAnalysis h1 env eng model sf bufs"
    and b: "map the (filter (\<lambda>b. b \<noteq> None) bufs) = no_widget_images env"
    using no_widget_branch[OF assms(1,2), of h eng model sf steps] unfolding h1_def by blast
  have c: "outcome (analyzeScreenshot eng model (config h1) sf) = Inr ai"
    using assms(5) by (simp add: h1_def)
  note f = finalizeAnalysis_returns[OF assms(3,4) c, of bufs]
  from f obtain r where r: "returned (finalizeAnalysis h1 env eng model sf bufs) = Inr r"
    "res_widgetType r = widgetType h1" "res_typeMatchResult r = typeMatchResult h1"
    by blast
  have 1: "\<exists>r tm. returned (validateWithAI h env eng model sf steps) = Inr r
            \<and> res_widgetType r = ''Widget Not Found''
            \<and> res_typeMatchResult r = Some tm
            \<and> \<not> matched tm
            \<and> detected tm = ''Widget Not Found''
            \<and> expected tm = expectedType h"
    unfolding v using r by (simp add: h1_def)
  have 2: "analysed (validateWithAI h env eng model sf steps) = no_widget_images env"
    unfolding v using f b by simp
  have 3: "length (no_widget_images env) \<le> 1"
    by (simp add: no_widget_images_def split: sum.splits)
  have 4: "\<forall>img \<in> set (no_widget_images env). fullPage img"
    by (auto simp add: no_widget_images_def split: sum.splits)
  have 5: "\<not> closed_before_capture env \<and> (\<exists>b. capture env = Inr b) \<longrightarrow> length (no_widget_images env) = 1"
    by (auto simp add: no_widget_images_def)
  show ?thesis unfolding 2 using 1 3 4 5 by simp
qed

lemma mock_outcome: "outcome (analyzeScreenshot mock_engine model cfg sf) = Inr getMockResult"
  by (simp add: analyzeScreenshot_def mock_engine_def new_AIEngine_def)

theorem validateWithAI_no_widget_witness:
  "\<not> closed_at_entry empty_page \<and> match_count empty_page = Inr 0
   \<and> mkdir_failure empty_page = None \<and> write_failure empty_page = None
   \<and> outcome (analyzeScreenshot mock_engine always_server_error (config fresh_helper) None) = Inr getMockResult
   \<and> \<not> closed_before_capture empty_page \<and> capture empty_page = Inr ''PNG''
   \<and> analysed (validateWithAI fresh_helper empty_page mock_engine always_server_error None unreached_steps)
       = [\<lparr>fullPage = True, bytes = ''PNG''\<rparr>]
   \<and> length (analysed (validateWithAI fresh_helper empty_page mock_engine always_server_error None unreached_steps)) = 1"
proof -
  have e: "\<not> closed_at_entry empty_page" "match_count empty_page = Inr 0"
    "mkdir_failure empty_page = None" "write_failure empty_page = None"
    "\<not> closed_before_capture empty_page" "capture empty_page = Inr ''PNG''"
    by (simp_all add: empty_page_def)
  have i: "no_widget_images empty_page = [\<lparr>fullPage = True, bytes = ''PNG''\<rparr>]"
    by (simp add: no_widget_images_def empty_page_def)
  note t = validateWithAI_no_widget[where env = empty_page and eng = mock_engine
      and model = always_server_error and h = fresh_helper and sf = None and ai = getMockResult
      and steps = unreached_steps, OF e(1) e(2) e(3) e(4) mock_outcome]
  from t have a: "analysed (validateWithAI fresh_helper empty_page mock_engine always_server_error None unreached_steps)
       = no_widget_images empty_page"
    by blast
  show ?thesis using e mock_outcome a i by simp
qed

end
